theory Spec2Isabelle
  imports Main "HOL-Library.AList"
begin

section \<open>Shared helpers\<close>

text \<open>
  Values of TypeScript type \<open>any\<close> (error payloads, status fields, thrown values) are
  modelled by a small datatype of JavaScript values. Only truthiness, strict equality with
  a string or number literal and property reads are used by the code modelled here.
\<close>

datatype jsval =
    JUndefined
  | JNull
  | JBool bool
  | JNum int
  | JStr string
  | JObj "(string \<times> jsval) list"

fun truthy :: "jsval \<Rightarrow> bool" where
  "truthy JUndefined = False"
| "truthy JNull = False"
| "truthy (JBool b) = b"
| "truthy (JNum n) = (n \<noteq> 0)"
| "truthy (JStr s) = (s \<noteq> [])"
| "truthy (JObj kvs) = True"

text \<open>\<open>a || b\<close>: the first operand when it is truthy, the second otherwise.\<close>

definition jor :: "jsval \<Rightarrow> jsval \<Rightarrow> jsval" where
  "jor a b = (if truthy a then a else b)"

text \<open>\<open>v?.k\<close>: the property \<open>k\<close> of an object, \<open>undefined\<close> on anything else.\<close>

fun fld :: "jsval \<Rightarrow> string \<Rightarrow> jsval" where
  "fld (JObj kvs) k = (case map_of kvs k of Some v \<Rightarrow> v | None \<Rightarrow> JUndefined)"
| "fld v k = JUndefined"

text \<open>\<open>a || b\<close> on optional strings (\<open>undefined\<close> and the empty string are falsy).\<close>

definition truthy_str :: "string option \<Rightarrow> bool" where
  "truthy_str s = (case s of None \<Rightarrow> False | Some t \<Rightarrow> t \<noteq> [])"

definition sor :: "string option \<Rightarrow> string option \<Rightarrow> string option" where
  "sor a b = (if truthy_str a then a else b)"

text \<open>\<open>String.prototype.startsWith\<close> and \<open>String.prototype.includes\<close>.\<close>

definition startsWith :: "string \<Rightarrow> string \<Rightarrow> bool" where
  "startsWith s p = (take (length p) s = p)"

fun includes_str :: "string \<Rightarrow> string \<Rightarrow> bool" where
  "includes_str [] sub = (sub = [])"
| "includes_str (c # cs) sub = (startsWith (c # cs) sub \<or> includes_str cs sub)"

text \<open>\<open>Array.prototype.join\<close> with a separator.\<close>

fun join_with :: "string \<Rightarrow> string list \<Rightarrow> string" where
  "join_with sep [] = []"
| "join_with sep [x] = x"
| "join_with sep (x # y # ys) = x @ sep @ join_with sep (y # ys)"

text \<open>
  \<open>path.join\<close> of a directory and a relative name. An empty segment contributes
  nothing, so \<open>path.join('', 'package.json')\<close> is \<open>package.json\<close>, a path relative to
  the working directory of the process. Normalisation of \<open>..\<close> and of repeated
  separators is not modelled.
\<close>

definition path_join :: "string \<Rightarrow> string \<Rightarrow> string" where
  "path_join dir f = (if dir = [] then f else if f = [] then dir else dir @ ''/'' @ f)"

section \<open>Quality gates (src/tasks/quality.ts)\<close>

record QualityGate =
  name :: string
  commands :: "string list"
  required :: bool

record QualityResult =
  gate :: string
  passed :: bool
  output_text :: string
  error_output :: "string option"

text \<open>
  What \<open>execSync\<close> does with a command: it returns the captured standard output, or it
  throws an error object carrying \<open>stdout\<close>, \<open>stderr\<close> and \<open>message\<close>.
\<close>

datatype exec_result =
    ExecOk string
  | ExecThrows "string option" "string option" string

text \<open>
  The git subcommands that the workspace manager runs through \<open>execSync\<close>:
  \<open>git symbolic-ref refs/remotes/origin/HEAD\<close>, \<open>git show-ref --verify\<close> of a
  reference, \<open>git fetch origin\<close> of a branch, \<open>git worktree add\<close> of a path on an
  existing branch, \<open>git worktree add -b\<close> of a path on a new branch from a start point,
  and \<open>git rev-parse --abbrev-ref HEAD\<close> inside a directory.
\<close>

datatype gitcmd =
    SymbolicRefOriginHead
  | ShowRefVerify string
  | FetchOrigin string
  | WorktreeAdd string string
  | WorktreeAddNewBranch string string string
  | RevParseAbbrevRefHead string

text \<open>
  Thrown values. \<open>RequestError\<close> is what the tracker client throws, with its
  \<open>status\<close> property; \<open>GitFailed\<close> a failed git subcommand;
  \<open>FetchError\<close> a failed call to the agent runtime; \<open>ReadFailed\<close> and
  \<open>JsonParseFailed\<close> a failed \<open>readFileSync\<close> or \<open>JSON.parse\<close>.
\<close>

datatype exn =
    RequestError jsval
  | GitFailed gitcmd
  | FetchError string
  | ReadFailed string
  | JsonParseFailed string

text \<open>
  The file system and the shell as the runner sees them. \<open>readFileSync\<close> returns
  \<open>None\<close> where the call throws. \<open>parseScripts\<close> stands for \<open>JSON.parse\<close> followed by
  \<open>packageJson.scripts || {}\<close>: the names of the scripts with a truthy value, or
  \<open>None\<close> where parsing throws. \<open>execSync\<close> takes the working directory and the
  command line.
\<close>

record qenv =
  existsSync :: "string \<Rightarrow> bool"
  readFileSync :: "string \<Rightarrow> string option"
  parseScripts :: "string \<Rightarrow> string list option"
  execSync :: "string \<Rightarrow> string \<Rightarrow> exec_result"

definition mkGate :: "string \<Rightarrow> string list \<Rightarrow> bool \<Rightarrow> QualityGate" where
  "mkGate n cs r = \<lparr>name = n, commands = cs, required = r\<rparr>"

text \<open>\<open>gates.find(g => g.name === n)\<close> is truthy.\<close>

definition hasGate :: "QualityGate list \<Rightarrow> string \<Rightarrow> bool" where
  "hasGate gates n = (find (\<lambda>g. name g = n) gates \<noteq> None)"

definition packageJsonGates :: "qenv \<Rightarrow> string \<Rightarrow> string list \<Rightarrow> QualityGate list" where
  "packageJsonGates env worktreePath scripts =
     (if ''lint'' \<in> set scripts
        then [mkGate ''Linting'' [''npm'', ''run'', ''lint''] True]
      else if existsSync env (path_join worktreePath ''.eslintrc.js'')
            \<or> existsSync env (path_join worktreePath ''.eslintrc.json'')
            \<or> existsSync env (path_join worktreePath ''eslint.config.js'')
        then [mkGate ''Linting'' [''npx'', ''eslint'', ''.''] True]
      else [])
     @ (if ''type-check'' \<in> set scripts
          then [mkGate ''Type Checking'' [''npm'', ''run'', ''type-check''] True]
        else if existsSync env (path_join worktreePath ''tsconfig.json'')
          then [mkGate ''Type Checking'' [''npx'', ''tsc'', ''--noEmit''] True]
        else [])
     @ (if ''build'' \<in> set scripts
          then [mkGate ''Build'' [''npm'', ''run'', ''build''] True] else [])
     @ (if ''test'' \<in> set scripts
          then [mkGate ''Tests'' [''npm'', ''test''] True] else [])
     @ (if ''format'' \<in> set scripts
          then [mkGate ''Formatting'' [''npm'', ''run'', ''format''] False] else [])"

definition makefileGates :: "string \<Rightarrow> QualityGate list \<Rightarrow> QualityGate list" where
  "makefileGates makefile gates =
     (let g1 = (if includes_str makefile ''lint:'' \<and> \<not> hasGate gates ''Linting''
                then gates @ [mkGate ''Linting'' [''make'', ''lint''] True] else gates);
          g2 = (if includes_str makefile ''test:'' \<and> \<not> hasGate g1 ''Tests''
                then g1 @ [mkGate ''Tests'' [''make'', ''test''] True] else g1);
          g3 = (if includes_str makefile ''build:'' \<and> \<not> hasGate g2 ''Build''
                then g2 @ [mkGate ''Build'' [''make'', ''build''] True] else g2)
      in g3)"

definition pythonGates :: "qenv \<Rightarrow> string \<Rightarrow> QualityGate list \<Rightarrow> QualityGate list" where
  "pythonGates env worktreePath gates =
     (if existsSync env (path_join worktreePath ''pyproject.toml'')
         \<or> existsSync env (path_join worktreePath ''setup.py'')
      then (if \<not> hasGate gates ''Tests''
            then gates @ [mkGate ''Tests'' [''pytest''] True] else gates)
      else gates)"

definition rustGates :: "qenv \<Rightarrow> string \<Rightarrow> QualityGate list \<Rightarrow> QualityGate list" where
  "rustGates env worktreePath gates =
     (if existsSync env (path_join worktreePath ''Cargo.toml'')
      then gates @ [mkGate ''Linting'' [''cargo'', ''clippy''] True,
                    mkGate ''Build'' [''cargo'', ''build''] True,
                    mkGate ''Tests'' [''cargo'', ''test''] True]
      else gates)"

text \<open>\<open>detectGates\<close>: the four detection blocks in source order; a throwing read or
  parse leaves the function at once.\<close>

definition detectGates :: "qenv \<Rightarrow> string \<Rightarrow> exn + QualityGate list" where
  "detectGates env worktreePath =
     (let packageJsonPath = path_join worktreePath ''package.json'';
          fromPackage =
            (if existsSync env packageJsonPath then
               (case readFileSync env packageJsonPath of
                  None \<Rightarrow> Inl (ReadFailed packageJsonPath)
                | Some txt \<Rightarrow>
                    (case parseScripts env txt of
                       None \<Rightarrow> Inl (JsonParseFailed packageJsonPath)
                     | Some scripts \<Rightarrow> Inr (packageJsonGates env worktreePath scripts)))
             else Inr [])
      in case fromPackage of
           Inl e \<Rightarrow> Inl e
         | Inr gates0 \<Rightarrow>
             (let makefilePath = path_join worktreePath ''Makefile'';
                  fromMake =
                    (if existsSync env makefilePath then
                       (case readFileSync env makefilePath of
                          None \<Rightarrow> Inl (ReadFailed makefilePath)
                        | Some makefile \<Rightarrow> Inr (makefileGates makefile gates0))
                     else Inr gates0)
              in case fromMake of
                   Inl e \<Rightarrow> Inl e
                 | Inr gates1 \<Rightarrow>
                     Inr (rustGates env worktreePath (pythonGates env worktreePath gates1))))"

definition runGate :: "qenv \<Rightarrow> string \<Rightarrow> QualityGate \<Rightarrow> QualityResult" where
  "runGate env worktreePath g =
     (case execSync env worktreePath (join_with '' '' (commands g)) of
        ExecOk out \<Rightarrow> \<lparr>gate = name g, passed = True, output_text = out, error_output = None\<rparr>
      | ExecThrows out errOut msg \<Rightarrow>
          \<lparr>gate = name g, passed = False,
           output_text = (case out of Some s \<Rightarrow> s | None \<Rightarrow> []),
           error_output = Some (case sor errOut (Some msg) of Some s \<Rightarrow> s | None \<Rightarrow> [])\<rparr>)"

text \<open>The \<open>for\<close> loop of \<open>runAllGates\<close>: run, push, leave the loop on a failed
  required gate.\<close>

fun runGatesLoop :: "qenv \<Rightarrow> string \<Rightarrow> QualityGate list \<Rightarrow> QualityResult list" where
  "runGatesLoop env worktreePath [] = []"
| "runGatesLoop env worktreePath (g # gs) =
     (let result = runGate env worktreePath g
      in if \<not> passed result \<and> required g then [result]
         else result # runGatesLoop env worktreePath gs)"

definition runAllGates :: "qenv \<Rightarrow> string \<Rightarrow> exn + QualityResult list" where
  "runAllGates env worktreePath =
     (case detectGates env worktreePath of
        Inl e \<Rightarrow> Inl e
      | Inr gates \<Rightarrow> Inr (runGatesLoop env worktreePath gates))"

text \<open>\<open>allRequiredPassed\<close>: the gate list is detected again, at the empty path;
  \<open>results.find\<close> takes the first result of a gate name.\<close>

definition allRequiredPassed :: "qenv \<Rightarrow> QualityResult list \<Rightarrow> exn + bool" where
  "allRequiredPassed env results =
     (case detectGates env [] of
        Inl e \<Rightarrow> Inl e
      | Inr gates \<Rightarrow>
          (let requiredGates = map name (filter required gates)
           in Inr (list_all
                (\<lambda>gateName.
                   case find (\<lambda>r. gate r = gateName) results of
                     None \<Rightarrow> False
                   | Some result \<Rightarrow> passed result)
                requiredGates)))"

text \<open>A gate stops the pipeline when it is required and its run fails.\<close>

definition stopsPipeline :: "qenv \<Rightarrow> string \<Rightarrow> QualityGate \<Rightarrow> bool" where
  "stopsPipeline env worktreePath g =
     (\<not> passed (runGate env worktreePath g) \<and> required g)"

text \<open>
  A workspace whose \<open>package.json\<close> declares a \<open>lint\<close> script that fails, while the
  working directory of the orchestrator process holds no manifest at all.
\<close>

definition lintOnlyWorkspace :: string where
  "lintOnlyWorkspace = ''/repo/.worktrees/issue-7''"

definition lintOnlyEnv :: qenv where
  "lintOnlyEnv =
     \<lparr>existsSync = (\<lambda>p. p = ''/repo/.worktrees/issue-7/package.json''),
      readFileSync = (\<lambda>p. Some ''manifest''),
      parseScripts = (\<lambda>txt. Some [''lint'']),
      execSync = (\<lambda>cwd cmd. ExecThrows (Some []) (Some ''lint errors'') ''Command failed'')\<rparr>"

definition failedLint :: QualityResult where
  "failedLint = \<lparr>gate = ''Linting'', passed = False, output_text = [],
                  error_output = Some ''lint errors''\<rparr>"

section \<open>Configuration (src/config.ts)\<close>

text \<open>The fields of \<open>Config\<close> that the orchestration core reads.\<close>

record Config =
  username :: string
  allowedUsers :: "string list"
  maxConcurrentTasks :: nat
  projectPath :: string
  worktreeDir :: string

section \<open>Tracker client (src/github/client.ts)\<close>

text \<open>
  Timestamps (\<open>createdAt\<close>, \<open>startedAt\<close>, \<open>Date.now()\<close>) are the instants they denote,
  in milliseconds since the epoch. \<open>author\<close> is read by \<open>isUserAllowed\<close>; the
  \<open>Issue\<close> interface does not declare it and \<open>getIssuesWithLabel\<close> never sets it, so
  it is optional here.
\<close>

record Comment =
  comment_id :: nat
  comment_body :: string
  comment_author :: string
  comment_createdAt :: int

record Issue =
  number :: nat
  title :: string
  body :: string
  labels :: "string list"
  comments :: "Comment list"
  createdAt :: int
  updatedAt :: int
  author :: "string option"

datatype Priority = PriorityHigh | PriorityMedium | PriorityLow | PriorityNone

text \<open>What the tracker's REST interface returns.\<close>

datatype api_label = LabelString string | LabelObject "string option"

record api_issue =
  api_number :: nat
  api_title :: string
  api_body :: "string option"
  api_labels :: "api_label list"
  created_at :: int
  updated_at :: int

record api_comment =
  api_id :: nat
  api_comment_body :: "string option"
  api_user_login :: "string option"
  api_created_at :: int

text \<open>The parameters of a \<open>listForRepo\<close> request, besides the repository.\<close>

record list_request =
  req_labels :: string
  req_state :: string
  req_per_page :: nat
  req_sort :: string
  req_direction :: string

text \<open>
  The tracker, as the client calls it. \<open>listForRepo\<close> receives the request and
  answers with an error or a page of issues; \<open>listComments\<close> receives the issue number
  and the page (100 per page). The three mutations return the error they throw, if any.
\<close>

record tracker =
  listForRepo :: "list_request \<Rightarrow> exn + api_issue list"
  listComments :: "nat \<Rightarrow> nat \<Rightarrow> exn + api_comment list"
  removeLabelCall :: "nat \<Rightarrow> string \<Rightarrow> exn option"
  addLabelsCall :: "nat \<Rightarrow> string \<Rightarrow> exn option"
  createCommentCall :: "nat \<Rightarrow> string \<Rightarrow> exn option"

definition labelName :: "api_label \<Rightarrow> string" where
  "labelName l =
     (case l of
        LabelString s \<Rightarrow> s
      | LabelObject n \<Rightarrow> (case n of Some s \<Rightarrow> s | None \<Rightarrow> []))"

definition toComment :: "api_comment \<Rightarrow> Comment" where
  "toComment c =
     \<lparr>comment_id = api_id c,
      comment_body = (case api_comment_body c of Some s \<Rightarrow> s | None \<Rightarrow> []),
      comment_author =
        (case sor (api_user_login c) (Some ''unknown'') of Some s \<Rightarrow> s | None \<Rightarrow> []),
      comment_createdAt = api_created_at c\<rparr>"

text \<open>The \<open>while (true)\<close> loop of \<open>getIssueComments\<close>; it need not end, so it is a
  partial function into \<open>option\<close>.\<close>

partial_function (option) fetchCommentPages ::
  "tracker \<Rightarrow> nat \<Rightarrow> nat \<Rightarrow> Comment list \<Rightarrow> (exn + Comment list) option" where
  "fetchCommentPages gh issueNumber page allComments =
     (case listComments gh issueNumber page of
        Inl e \<Rightarrow> Some (Inl e)
      | Inr data \<Rightarrow>
          (if length data = 0 then Some (Inr allComments)
           else if length data < 100
             then Some (Inr (allComments @ map toComment data))
           else fetchCommentPages gh issueNumber (page + 1)
                  (allComments @ map toComment data)))"

declare fetchCommentPages.simps [code]

definition getIssueComments :: "tracker \<Rightarrow> nat \<Rightarrow> Comment list option" where
  "getIssueComments gh issueNumber =
     map_option (\<lambda>r. case r of Inl e \<Rightarrow> [] | Inr cs \<Rightarrow> cs)
       (fetchCommentPages gh issueNumber 1 [])"

definition toIssue :: "api_issue \<Rightarrow> Comment list \<Rightarrow> Issue" where
  "toIssue i cs =
     \<lparr>number = api_number i,
      title = api_title i,
      body = (case api_body i of Some s \<Rightarrow> s | None \<Rightarrow> []),
      labels = map labelName (api_labels i),
      comments = cs,
      createdAt = created_at i,
      updatedAt = updated_at i,
      author = None\<rparr>"

definition notExcluded :: "string list \<Rightarrow> api_issue \<Rightarrow> bool" where
  "notExcluded excludeLabels i =
     (\<not> list_ex (\<lambda>exclude. exclude \<in> set (map labelName (api_labels i))) excludeLabels)"

text \<open>The request of \<open>getIssuesWithLabel\<close>: open issues with the label, 20 per page,
  sorted by creation, ascending.\<close>

definition issuesRequest :: "string \<Rightarrow> list_request" where
  "issuesRequest label =
     \<lparr>req_labels = label, req_state = ''open'', req_per_page = 20,
      req_sort = ''created'', req_direction = ''asc''\<rparr>"


definition getIssuesWithLabel ::
  "tracker \<Rightarrow> string \<Rightarrow> string list \<Rightarrow> (exn + Issue list) option" where
  "getIssuesWithLabel gh label excludeLabels =
     (case listForRepo gh (issuesRequest label) of
        Inl e \<Rightarrow> Some (Inl e)
      | Inr data \<Rightarrow>
          (let filtered = filter (notExcluded excludeLabels) data
           in map_option (\<lambda>css. Inr (map (\<lambda>(i, cs). toIssue i cs) (zip filtered css)))
                (those (map (\<lambda>i. getIssueComments gh (api_number i)) filtered))))"

definition errStatus :: "exn \<Rightarrow> jsval" where
  "errStatus e = (case e of RequestError st \<Rightarrow> st | _ \<Rightarrow> JUndefined)"

definition addLabel :: "tracker \<Rightarrow> nat \<Rightarrow> string \<Rightarrow> exn + unit" where
  "addLabel gh issueNumber label =
     (case addLabelsCall gh issueNumber label of None \<Rightarrow> Inr () | Some e \<Rightarrow> Inl e)"

definition removeLabel :: "tracker \<Rightarrow> nat \<Rightarrow> string \<Rightarrow> exn + unit" where
  "removeLabel gh issueNumber label =
     (case removeLabelCall gh issueNumber label of
        None \<Rightarrow> Inr ()
      | Some e \<Rightarrow> (if errStatus e \<noteq> JNum 404 then Inl e else Inr ()))"

definition postComment :: "tracker \<Rightarrow> nat \<Rightarrow> string \<Rightarrow> exn + unit" where
  "postComment gh issueNumber txt =
     (case createCommentCall gh issueNumber txt of None \<Rightarrow> Inr () | Some e \<Rightarrow> Inl e)"

definition getPriority :: "Issue \<Rightarrow> Priority" where
  "getPriority issue =
     (if ''ai-priority:high'' \<in> set (labels issue) then PriorityHigh
      else if ''ai-priority:medium'' \<in> set (labels issue) then PriorityMedium
      else if ''ai-priority:low'' \<in> set (labels issue) then PriorityLow
      else PriorityNone)"

fun priorityOrder :: "Priority \<Rightarrow> nat" where
  "priorityOrder PriorityHigh = 0"
| "priorityOrder PriorityMedium = 1"
| "priorityOrder PriorityLow = 2"
| "priorityOrder PriorityNone = 3"

text \<open>
  \<open>[...issues].sort((a, b) => priorityA - priorityB)\<close>. \<open>Array.prototype.sort\<close> is a
  stable sort, and so is \<open>sort_key\<close>: both give the one stable arrangement by rank.
\<close>

definition sortByPriority :: "Issue list \<Rightarrow> Issue list" where
  "sortByPriority issues = sort_key (\<lambda>i. priorityOrder (getPriority i)) issues"

definition hasNewComments :: "Config \<Rightarrow> Issue \<Rightarrow> int \<Rightarrow> bool" where
  "hasNewComments cfg issue since =
     list_ex (\<lambda>c. comment_createdAt c > since \<and> comment_author c \<noteq> username cfg)
       (comments issue)"

definition getLatestHumanComment :: "Config \<Rightarrow> Issue \<Rightarrow> Comment option" where
  "getLatestHumanComment cfg issue =
     (let humanComments = filter (\<lambda>c. comment_author c \<noteq> username cfg) (comments issue)
      in if length humanComments > 0 then Some (last humanComments) else None)"

section \<open>Labels (src/github/labels.ts, here src/unnamed/part_000)\<close>

definition AI_TASK :: string where "AI_TASK = ''ai-task''"
definition AI_IN_PROGRESS :: string where "AI_IN_PROGRESS = ''ai-in-progress''"
definition AI_BLOCKED :: string where "AI_BLOCKED = ''ai-blocked''"
definition AI_APPROVED :: string where "AI_APPROVED = ''ai-approved''"

definition isReadyForPickup :: "Issue \<Rightarrow> bool" where
  "isReadyForPickup issue =
     (AI_TASK \<in> set (labels issue) \<and> AI_IN_PROGRESS \<notin> set (labels issue))"

definition isUserAllowed :: "Issue \<Rightarrow> Config \<Rightarrow> bool" where
  "isUserAllowed issue cfg =
     (if length (allowedUsers cfg) = 0 then True
      else if (case author issue of Some a \<Rightarrow> a \<in> set (allowedUsers cfg) | None \<Rightarrow> False)
        then True
      else if AI_APPROVED \<in> set (labels issue) then True
      else False)"

text \<open>Two trackers for the label removal: one answers 404, the other 500.\<close>

definition tracker404 :: tracker where
  "tracker404 =
     \<lparr>listForRepo = (\<lambda>req. Inr []), listComments = (\<lambda>n p. Inr []),
      removeLabelCall = (\<lambda>n l. Some (RequestError (JNum 404))),
      addLabelsCall = (\<lambda>n l. None), createCommentCall = (\<lambda>n b. None)\<rparr>"

definition tracker500 :: tracker where
  "tracker500 =
     \<lparr>listForRepo = (\<lambda>req. Inr []), listComments = (\<lambda>n p. Inr []),
      removeLabelCall = (\<lambda>n l. Some (RequestError (JNum 500))),
      addLabelsCall = (\<lambda>n l. None), createCommentCall = (\<lambda>n b. None)\<rparr>"

section \<open>Session supervisor (OpenCodeManager, in src/tasks/worktree.ts)\<close>

text \<open>
  Functions of the JavaScript runtime and text templates that are not modelled
  character by character: \<open>normalizeMessage\<close> (the regular expressions over bullet
  characters in the popup branch), \<open>stringify\<close> (\<open>JSON.stringify\<close>, which gives
  \<open>undefined\<close> on \<open>undefined\<close>), \<open>renderErrorComment\<close> (the template of the diagnostic
  comment, from the error name, the truncated error text and the session link).
\<close>

record builtins =
  normalizeMessage :: "string \<Rightarrow> string"
  stringify :: "jsval \<Rightarrow> jsval"
  renderErrorComment :: "jsval \<Rightarrow> string \<Rightarrow> string option \<Rightarrow> string"

definition is_space :: "char \<Rightarrow> bool" where
  "is_space c = (c \<in> {CHR '' '', CHR 0x09, CHR 0x0A, CHR 0x0B, CHR 0x0C, CHR 0x0D})"

text \<open>\<open>String.prototype.trim\<close> (on the ASCII white space).\<close>

definition js_trim :: "string \<Rightarrow> string" where
  "js_trim s = rev (dropWhile is_space (rev (dropWhile is_space s)))"

text \<open>\<open>String.prototype.toLowerCase\<close> (on the ASCII letters).\<close>

definition toLowerCase :: "string \<Rightarrow> string" where
  "toLowerCase s =
     map (\<lambda>c. let n = (of_char c :: nat)
               in if 65 \<le> n \<and> n \<le> 90 then char_of (n + 32) else c) s"

fun show_nat :: "nat \<Rightarrow> string" where
  "show_nat n =
     (if n < 10 then [''0123456789'' ! n]
      else show_nat (n div 10) @ [''0123456789'' ! (n mod 10)])"

definition show_int :: "int \<Rightarrow> string" where
  "show_int i = (if i < 0 then ''-'' @ show_nat (nat (- i)) else show_nat (nat i))"

record TuiPopup =
  tui_title :: string
  tui_message :: string
  tui_variant :: "string option"

text \<open>
  \<open>OpenCodeTaskStatus\<close>. \<open>eventSource\<close> and \<open>statusCheckInterval\<close> are \<open>None\<close> while
  the field is unset, \<open>Some True\<close> for an open stream or an armed timer and
  \<open>Some False\<close> once closed or cleared. \<open>errorHandled\<close> is \<open>None\<close> while unset.
\<close>

record OpenCodeTaskStatus =
  sessionId :: string
  issueNumber :: nat
  startedAt :: int
  shareLink :: "string option"
  eventSource :: "bool option"
  lastActivity :: int
  currentMessageBuffer :: "string option"
  statusCheckInterval :: "bool option"
  lastTuiPopup :: "TuiPopup option"
  errorHandled :: "bool option"

record OpenCodePart =
  part_type :: string
  part_text :: "string option"

text \<open>
  The properties that \<open>handleEvent\<close> reads, either on the event itself or on its
  \<open>properties\<close> object. Identifiers and texts are strings, as \<open>OpenCodeEvent\<close> and
  \<open>OpenCodePart\<close> declare them; what the handler treats as \<open>any\<close> is a \<open>jsval\<close>.
\<close>

record Payload =
  sessionID :: "string option"
  part :: "OpenCodePart option"
  error :: jsval
  state :: jsval
  status :: jsval
  ev_shareLink :: jsval
  ev_url :: jsval
  info :: jsval
  popup_title :: "string option"
  popup_message :: "string option"
  popup_text :: "string option"
  popup_body :: "string option"
  popup_variant :: "string option"

text \<open>\<open>stringified\<close> is \<open>JSON.stringify(event)\<close>.\<close>

record OpenCodeEvent =
  etype :: string
  self :: Payload
  properties :: "Payload option"
  stringified :: string

datatype level = Debug | Info | Warn | Error

text \<open>
  What the supervisor does besides updating the task record: a \<open>logger\<close> call with its
  level and message, a write to standard output, a call of \<open>handleSessionError\<close> (the
  compensating recovery) with the issue number, the error and the share link, the
  removal of the task from the supervisor's map, the completion callback, and a
  \<open>TypeError\<close> that leaves the handler (the stream's \<open>onmessage\<close> catches it). The
  coloured \<open>console.log\<close> lines are not recorded.
\<close>

datatype sup_action =
    Log level string
  | StdoutWrite string
  | HandleSessionError nat jsval "string option"
  | TasksDelete nat
  | OnTaskComplete nat
  | Thrown

definition isRecovery :: "sup_action \<Rightarrow> bool" where
  "isRecovery a = (case a of HandleSessionError n e l \<Rightarrow> True | _ \<Rightarrow> False)"

text \<open>\<open>!task.errorHandled\<close> is false.\<close>

definition flagSet :: "OpenCodeTaskStatus \<Rightarrow> bool" where
  "flagSet task = (errorHandled task = Some True)"

text \<open>\<open>event.properties?.f\<close>, and \<open>event.properties || event\<close>.\<close>

definition propsField :: "OpenCodeEvent \<Rightarrow> (Payload \<Rightarrow> 'a) \<Rightarrow> 'a \<Rightarrow> 'a" where
  "propsField ev f undef = (case properties ev of None \<Rightarrow> undef | Some p \<Rightarrow> f p)"

definition propsOrEvent :: "OpenCodeEvent \<Rightarrow> Payload" where
  "propsOrEvent ev = (case properties ev of None \<Rightarrow> self ev | Some p \<Rightarrow> p)"

text \<open>The diagnostic pass of the \<open>message.updated\<close> branch; \<open>modelID.trim()\<close> throws on
  a truthy value that is not a string.\<close>

definition messageUpdatedDiag :: "OpenCodeEvent \<Rightarrow> sup_action list" where
  "messageUpdatedDiag ev =
     (let messageInfo = jor (propsField ev info JUndefined) (info (self ev));
          model = fld messageInfo ''model''
      in if truthy model then
           (let modelID = jor (jor (fld model ''modelID'') (fld model ''model'')) (JStr [])
            in if \<not> truthy modelID
                 then [Log Error
                   ''CRITICAL: Message has empty modelID - this will cause session to fail'']
               else (case modelID of
                       JStr s \<Rightarrow>
                         (if js_trim s = []
                          then [Log Error
                            ''CRITICAL: Message has empty modelID - this will cause session to fail'']
                          else [Log Debug ''Message model configuration''])
                     | _ \<Rightarrow> [Thrown]))
         else [])"

definition handlePart :: "OpenCodeTaskStatus \<Rightarrow> OpenCodeEvent
    \<Rightarrow> OpenCodeTaskStatus \<times> sup_action list" where
  "handlePart task ev =
     (case (case propsField ev part None of Some p \<Rightarrow> Some p | None \<Rightarrow> part (self ev)) of
        None \<Rightarrow> (task, [])
      | Some p \<Rightarrow>
          (if part_type p = ''text'' \<and> truthy_str (part_text p) then
             (let txt = (case part_text p of Some s \<Rightarrow> s | None \<Rightarrow> [])
              in if etype ev = ''message.chunk'' then
                   (task\<lparr>currentMessageBuffer :=
                       Some ((case sor (currentMessageBuffer task) (Some []) of
                                Some b \<Rightarrow> b | None \<Rightarrow> []) @ txt)\<rparr>,
                    [StdoutWrite txt])
                 else
                   (let currentLength =
                          (case currentMessageBuffer task of Some b \<Rightarrow> length b | None \<Rightarrow> 0)
                    in (task\<lparr>currentMessageBuffer := Some txt\<rparr>,
                        (if length txt > currentLength
                         then [StdoutWrite (drop currentLength txt)] else []))))
           else if part_type p = ''tool_use'' \<or> part_type p = ''tool_call'' then
             (task, [Log Info ''OpenCode tool use''])
           else if part_type p = ''step_finish'' then
             (if truthy_str (currentMessageBuffer task)
              then (task\<lparr>currentMessageBuffer := None\<rparr>,
                    [Log Info ''OpenCode message'', Log Info ''OpenCode step finish''])
              else (task, [Log Info ''OpenCode step finish'']))
           else (task, [])))"

definition handleTui :: "builtins \<Rightarrow> OpenCodeTaskStatus \<Rightarrow> OpenCodeEvent
    \<Rightarrow> OpenCodeTaskStatus \<times> sup_action list" where
  "handleTui rt task ev =
     (let popupData = propsOrEvent ev;
          ttl = sor (sor (popup_title popupData) (popup_message popupData)) (Some []);
          msg = sor (sor (sor (popup_message popupData) (popup_text popupData))
                      (popup_body popupData)) (Some []);
          normalizedTitle = normalizeMessage rt (case ttl of Some s \<Rightarrow> s | None \<Rightarrow> []);
          normalizedMessage = normalizeMessage rt (case msg of Some s \<Rightarrow> s | None \<Rightarrow> []);
          hasChanged = (case lastTuiPopup task of
                          None \<Rightarrow> True
                        | Some lastPopup \<Rightarrow> tui_message lastPopup \<noteq> normalizedMessage)
      in if hasChanged
         then (task\<lparr>lastTuiPopup :=
                  Some \<lparr>tui_title = normalizedTitle, tui_message = normalizedMessage,
                        tui_variant = popup_variant popupData\<rparr>\<rparr>, [])
         else (task, []))"

definition MIN_SESSION_DURATION_MS :: int where "MIN_SESSION_DURATION_MS = 60000"
definition IMMEDIATE_FAILURE_MS :: int where "IMMEDIATE_FAILURE_MS = 1000"

definition immediateError :: "int \<Rightarrow> jsval" where
  "immediateError sessionDuration =
     JObj [(''name'', JStr ''ImmediateFailure''),
           (''message'', JStr (''Session failed immediately after '' @ show_int sessionDuration
              @ ''ms - likely model/config validation error''))]"

definition closeStream :: "OpenCodeTaskStatus \<Rightarrow> OpenCodeTaskStatus" where
  "closeStream task =
     (let t1 = (case eventSource task of
                  None \<Rightarrow> task | Some b \<Rightarrow> task\<lparr>eventSource := Some False\<rparr>)
      in case statusCheckInterval t1 of
           None \<Rightarrow> t1 | Some b \<Rightarrow> t1\<lparr>statusCheckInterval := Some False\<rparr>)"

text \<open>The \<open>session.idle\<close> branch, statement by statement.\<close>

definition handleIdle :: "int \<Rightarrow> OpenCodeTaskStatus \<Rightarrow> OpenCodeEvent
    \<Rightarrow> OpenCodeTaskStatus \<times> sup_action list" where
  "handleIdle now task ev =
     (let idleSessionId = sor (sessionID (self ev)) (propsField ev sessionID None)
      in if idleSessionId = Some (sessionId task) then
           (let sessionDuration = now - startedAt task;
                a0 = (if sessionDuration < IMMEDIATE_FAILURE_MS
                        then [Log Error ''Session failed immediately - likely model/config issue'']
                      else if sessionDuration < MIN_SESSION_DURATION_MS
                        then [Log Warn
                          ''Session went idle very quickly - may not have completed work'']
                      else []);
                (t1, a1) = (if truthy (error (self ev)) \<and> \<not> flagSet task
                            then (task\<lparr>errorHandled := Some True\<rparr>,
                                  [Log Error ''OpenCode session idle with error'',
                                   HandleSessionError (issueNumber task) (error (self ev))
                                     (shareLink task)])
                            else (task, []));
                (t2, a2) = (if truthy_str (currentMessageBuffer t1)
                            then (t1\<lparr>currentMessageBuffer := None\<rparr>,
                                  [Log Info ''OpenCode final message''])
                            else (t1, []));
                (t3, a3) = (if sessionDuration < IMMEDIATE_FAILURE_MS \<and> \<not> flagSet t2
                            then (t2\<lparr>errorHandled := Some True\<rparr>,
                                  [HandleSessionError (issueNumber task)
                                     (immediateError sessionDuration) (shareLink t2)])
                            else (t2, []));
                a4 = (if truthy (error (self ev)) \<or> sessionDuration < IMMEDIATE_FAILURE_MS
                        then [Log Info ''OpenCode session ended (Failed)'']
                      else [Log Info ''OpenCode session idle - Task Complete''])
            in (closeStream t3,
                a0 @ a1 @ a2 @ a3 @ a4
                @ [TasksDelete (issueNumber task), OnTaskComplete (issueNumber task)]))
         else (task, []))"

text \<open>The \<open>session.status\<close>, \<open>session.error\<close> and \<open>session.blocked\<close> branch.\<close>

definition handleSessionStatus :: "OpenCodeTaskStatus \<Rightarrow> OpenCodeEvent
    \<Rightarrow> OpenCodeTaskStatus \<times> sup_action list" where
  "handleSessionStatus task ev =
     (let statusData = propsOrEvent ev;
          st = jor (state statusData) (status statusData);
          err = jor (error statusData) (error (self ev))
      in if truthy err \<or> st = JStr ''error'' \<or> st = JStr ''error'' \<or> st = JStr ''blocked''
         then (if \<not> flagSet task
               then (task\<lparr>errorHandled := Some True\<rparr>,
                     [Log Error ''OpenCode session error/blocked detected'',
                      HandleSessionError (issueNumber task) err (shareLink task)])
               else (task, []))
         else (task, []))"

text \<open>The final \<open>else\<close> branch: share link capture and the keyword scan.\<close>

definition handleOther :: "OpenCodeTaskStatus \<Rightarrow> OpenCodeEvent
    \<Rightarrow> OpenCodeTaskStatus \<times> sup_action list" where
  "handleOther task ev =
     (let link = jor (jor (jor (ev_shareLink (self ev)) (ev_url (self ev)))
                        (propsField ev ev_shareLink JUndefined))
                   (propsField ev ev_url JUndefined);
          (t1, a1) = (case link of
                        JStr s \<Rightarrow>
                          (if s \<noteq> [] \<and> includes_str s ''opncd.ai''
                              \<and> \<not> truthy_str (shareLink task)
                           then (task\<lparr>shareLink := Some s\<rparr>,
                                 [Log Info ''OpenCode Share Link Captured''])
                           else (task, []))
                      | _ \<Rightarrow> (task, []));
          eventStr = toLowerCase (stringified ev);
          a2 = (if etype ev \<noteq> ''message.updated''
                   \<and> (includes_str eventStr ''model'' \<or> includes_str eventStr ''invalid''
                      \<or> includes_str eventStr ''error'' \<or> includes_str eventStr ''fail''
                      \<or> includes_str eventStr ''not valid'' \<or> includes_str eventStr ''token'')
                then [Log Warn ''Unhandled event with potential error/model information'']
                else [])
      in (t1, a1 @ a2))"

text \<open>
  \<open>handleEvent\<close>. The \<open>message.updated\<close> block comes first and does not take part in
  the chain of \<open>else if\<close> that follows it. The \<open>todo.updated\<close> branch only logs.
\<close>

definition handleEvent :: "builtins \<Rightarrow> int \<Rightarrow> OpenCodeTaskStatus \<Rightarrow> OpenCodeEvent
    \<Rightarrow> OpenCodeTaskStatus \<times> sup_action list" where
  "handleEvent rt now task0 ev =
     (let task = task0\<lparr>lastActivity := now\<rparr>;
          eventType = etype ev;
          a0 = [Log Debug ''OpenCode event received'']
               @ (if eventType = ''message.updated'' then messageUpdatedDiag ev else [])
      in if Thrown \<in> set a0 then (task, a0)
         else
           (let (t1, a1) =
                  (if eventType = ''message.part.updated'' \<or> eventType = ''message.chunk''
                     then handlePart task ev
                   else if eventType = ''error''
                     then (task, [Log Error ''OpenCode error event''])
                   else if startsWith eventType ''tui.''
                     then handleTui rt task ev
                   else if eventType = ''session.idle''
                     then handleIdle now task ev
                   else if eventType = ''session.status'' \<or> eventType = ''session.error''
                           \<or> eventType = ''session.blocked''
                     then handleSessionStatus task ev
                   else if eventType = ''todo.updated''
                     then (task, [Log Info ''Todo list updated''])
                   else handleOther task ev)
            in (t1, a0 @ a1)))"

datatype SessionState = StateIdle | StateRunning | StateBlocked | StateError

text \<open>
  \<open>checkSessionStatus\<close>, the body of the 10 second timer. Its argument is what
  \<open>getSessionStatus\<close> gives: an error, or the state of each known session.
\<close>

definition checkSessionStatus ::
  "int \<Rightarrow> exn + (string \<Rightarrow> SessionState option) \<Rightarrow> OpenCodeTaskStatus
     \<Rightarrow> OpenCodeTaskStatus \<times> sup_action list" where
  "checkSessionStatus now statuses task =
     (case statuses of
        Inl e \<Rightarrow> (task, [Log Error ''Failed to check session status''])
      | Inr m \<Rightarrow>
          (case m (sessionId task) of
             None \<Rightarrow> (task, [])
           | Some sessionStatus \<Rightarrow>
               (task,
                (if sessionStatus = StateError \<or> sessionStatus = StateBlocked
                 then [Log Warn ''Session status check detected error/blocked state'']
                 else [])
                @ (if sessionStatus = StateIdle \<and> now - lastActivity task > 300000
                   then [Log Warn
                     ''Session has been idle for extended period - may be stuck'']
                   else []))))"

text \<open>The calls \<open>handleSessionError\<close> makes on the tracker, and what it logs.\<close>

datatype recovery_step =
    CallRemoveLabel nat string
  | CallAddLabel nat string
  | CallPostComment nat string
  | RecoveryLog level string

definition handleSessionError ::
  "builtins \<Rightarrow> tracker \<Rightarrow> nat \<Rightarrow> jsval \<Rightarrow> string option \<Rightarrow> recovery_step list" where
  "handleSessionError rt gh n err link =
     [RecoveryLog Info ''Reverting issue to ai-task label after session error'',
      CallRemoveLabel n AI_IN_PROGRESS]
     @ (case removeLabel gh n AI_IN_PROGRESS of
          Inl e \<Rightarrow> [RecoveryLog Warn ''Failed to remove ai-in-progress label'']
        | Inr u \<Rightarrow> [])
     @ [CallAddLabel n AI_TASK]
     @ (case addLabel gh n AI_TASK of
          Inl e \<Rightarrow> [RecoveryLog Warn ''Failed to add ai-task label'']
        | Inr u \<Rightarrow> [])
     @ (let errorMessage = jor (jor (fld (fld err ''data'') ''message'') (fld err ''message''))
                             (stringify rt err);
            errorName = jor (fld err ''name'') (JStr ''UnknownError'')
        in case errorMessage of
             JStr msg \<Rightarrow>
               (let commentBody = renderErrorComment rt errorName
                      (take 1000 msg @ (if length msg > 1000 then ''...'' else [])) link
                in CallPostComment n commentBody
                   # (case postComment gh n commentBody of
                        Inl e \<Rightarrow> [RecoveryLog Error ''Failed to handle session error'']
                      | Inr u \<Rightarrow> [RecoveryLog Info ''Posted error comment and reverted labels'']))
           | _ \<Rightarrow> [RecoveryLog Error ''Failed to handle session error''])"

text \<open>
  The two channels through which a supervisor observes its session: an event pushed on
  the stream, handled at some instant, and a tick of the status timer with what
  \<open>getSessionStatus\<close> answered. \<open>supervise\<close> feeds a sequence of observations, in
  their order of arrival, to the handlers of one task.
\<close>

datatype observation =
    PushEvent int OpenCodeEvent
  | StatusPoll int "exn + (string \<Rightarrow> SessionState option)"

definition observe :: "builtins \<Rightarrow> OpenCodeTaskStatus \<Rightarrow> observation
    \<Rightarrow> OpenCodeTaskStatus \<times> sup_action list" where
  "observe rt task ob =
     (case ob of
        PushEvent now ev \<Rightarrow> handleEvent rt now task ev
      | StatusPoll now statuses \<Rightarrow> checkSessionStatus now statuses task)"

fun supervise :: "builtins \<Rightarrow> OpenCodeTaskStatus \<Rightarrow> observation list
    \<Rightarrow> OpenCodeTaskStatus \<times> sup_action list" where
  "supervise rt task [] = (task, [])"
| "supervise rt task (ob # obs) =
     (let (t1, a1) = observe rt task ob;
          (t2, a2) = supervise rt t1 obs
      in (t2, a1 @ a2))"

text \<open>Concrete inputs for the supervisor: a task on session \<open>ses_1\<close> started at
  instant 0, idle events with and without an error payload, an explicit error event.\<close>

definition exampleBuiltins :: builtins where
  "exampleBuiltins =
     \<lparr>normalizeMessage = js_trim,
      stringify = (\<lambda>v. case v of JUndefined \<Rightarrow> JUndefined | _ \<Rightarrow> JStr ''{}''),
      renderErrorComment = (\<lambda>nm msg link. ''Session Error - Issue Reset: '' @ msg)\<rparr>"

definition exampleTask :: OpenCodeTaskStatus where
  "exampleTask =
     \<lparr>sessionId = ''ses_1'', issueNumber = 42, startedAt = 0, shareLink = None,
      eventSource = Some True, lastActivity = 0, currentMessageBuffer = None,
      statusCheckInterval = Some True, lastTuiPopup = None, errorHandled = None\<rparr>"

definition emptyPayload :: Payload where
  "emptyPayload =
     \<lparr>sessionID = None, part = None, error = JUndefined, state = JUndefined,
      status = JUndefined, ev_shareLink = JUndefined, ev_url = JUndefined,
      info = JUndefined, popup_title = None, popup_message = None, popup_text = None,
      popup_body = None, popup_variant = None\<rparr>"

definition rateLimitError :: jsval where
  "rateLimitError = JObj [(''name'', JStr ''APIError''), (''message'', JStr ''rate limited'')]"

definition idleEvent :: "jsval \<Rightarrow> OpenCodeEvent" where
  "idleEvent err =
     \<lparr>etype = ''session.idle'',
      self = emptyPayload\<lparr>sessionID := Some ''ses_1'', error := err\<rparr>,
      properties = None, stringified = []\<rparr>"

definition sessionErrorEvent :: OpenCodeEvent where
  "sessionErrorEvent =
     \<lparr>etype = ''session.error'',
      self = emptyPayload\<lparr>sessionID := Some ''ses_1''\<rparr>,
      properties = Some (emptyPayload\<lparr>state := JStr ''error'', error := rateLimitError\<rparr>),
      stringified = []\<rparr>"

definition errorStatuses :: "exn + (string \<Rightarrow> SessionState option)" where
  "errorStatuses = Inr (\<lambda>s. if s = ''ses_1'' then Some StateError else None)"







section \<open>Workspace manager (WorktreeManager, src/tasks/worktree.ts)\<close>

text \<open>
  The collaborators of the coordinator. \<open>git\<close> runs a git subcommand: \<open>Some\<close> of its
  standard output, or \<open>None\<close> when \<open>execSync\<close> throws. \<open>createSession\<close> takes the
  title and the working directory and returns the session id; \<open>getSession\<close> and
  \<open>sendPromptAsync\<close> take the session id and return the error they throw, if any (the
  text of the prompt is not modelled). \<open>github\<close> is the tracker.
\<close>

record world =
  git :: "gitcmd \<Rightarrow> string option"
  createSession :: "string \<Rightarrow> string \<Rightarrow> exn + string"
  getSession :: "string \<Rightarrow> exn option"
  sendPromptAsync :: "string \<Rightarrow> exn option"
  github :: tracker

text \<open>What the coordinator does to its collaborators, in order.\<close>

datatype effect =
    Git gitcmd
  | CreateSession string string
  | GetSession string
  | SendPrompt string
  | Subscribe string

text \<open>\<open>String.prototype.replace\<close> with a string pattern: the first occurrence only.\<close>

fun replace_first :: "string \<Rightarrow> string \<Rightarrow> string \<Rightarrow> string" where
  "replace_first [] pat rep = (if pat = [] then rep else [])"
| "replace_first (c # cs) pat rep =
     (if startsWith (c # cs) pat then rep @ drop (length pat) (c # cs)
      else c # replace_first cs pat rep)"

definition getWorktreePath :: "Config \<Rightarrow> nat \<Rightarrow> string" where
  "getWorktreePath cfg n =
     path_join (path_join (projectPath cfg) (worktreeDir cfg)) (''issue-'' @ show_nat n)"

definition getBranchName :: "nat \<Rightarrow> string \<Rightarrow> string" where
  "getBranchName n slug = ''ai/issue-'' @ show_nat n @ ''-'' @ slug"

definition getDefaultBranch :: "world \<Rightarrow> string \<times> gitcmd list" where
  "getDefaultBranch w =
     (case git w SymbolicRefOriginHead of
        Some out \<Rightarrow>
          (replace_first (js_trim out) ''refs/remotes/origin/'' [], [SymbolicRefOriginHead])
      | None \<Rightarrow>
          (case git w (ShowRefVerify ''refs/remotes/origin/main'') of
             Some out \<Rightarrow>
               (''main'', [SymbolicRefOriginHead, ShowRefVerify ''refs/remotes/origin/main''])
           | None \<Rightarrow>
               (''master'', [SymbolicRefOriginHead, ShowRefVerify ''refs/remotes/origin/main''])))"

text \<open>
  \<open>createWorktree\<close>, on the set of existing directories. It returns the path or the
  error thrown, the directories afterwards and the git subcommands it ran.
  \<open>path.dirname\<close> of the worktree path is the worktree directory of the project;
  \<open>mkdirSync\<close> is taken to succeed.
\<close>

definition createWorktree ::
  "Config \<Rightarrow> world \<Rightarrow> string set \<Rightarrow> nat \<Rightarrow> string
     \<Rightarrow> (exn + string) \<times> string set \<times> gitcmd list" where
  "createWorktree cfg w dirs n branch =
     (let wtPath = getWorktreePath cfg n;
          wtDir = path_join (projectPath cfg) (worktreeDir cfg);
          dirs1 = (if wtDir \<notin> dirs then insert wtDir dirs else dirs)
      in if wtPath \<in> dirs1 then (Inr wtPath, dirs1, [])
         else
           (let (defaultBranch, g0) = getDefaultBranch w;
                fetch = FetchOrigin defaultBranch
            in case git w fetch of
                 None \<Rightarrow> (Inl (GitFailed fetch), dirs1, g0 @ [fetch])
               | Some out \<Rightarrow>
                   (let showRef = ShowRefVerify (''refs/heads/'' @ branch);
                        branchExists = (git w showRef \<noteq> None);
                        add = (if branchExists then WorktreeAdd wtPath branch
                               else WorktreeAddNewBranch wtPath branch
                                      (''origin/'' @ defaultBranch))
                    in case git w add of
                         None \<Rightarrow> (Inl (GitFailed add), dirs1, g0 @ [fetch, showRef, add])
                       | Some out2 \<Rightarrow>
                           (Inr wtPath, insert wtPath dirs1, g0 @ [fetch, showRef, add]))))"

definition getCurrentBranch ::
  "Config \<Rightarrow> world \<Rightarrow> string set \<Rightarrow> nat \<Rightarrow> string option \<times> gitcmd list" where
  "getCurrentBranch cfg w dirs n =
     (let wtPath = getWorktreePath cfg n
      in if wtPath \<notin> dirs then (None, [])
         else (case git w (RevParseAbbrevRefHead wtPath) of
                 Some out \<Rightarrow> (Some (js_trim out), [RevParseAbbrevRefHead wtPath])
               | None \<Rightarrow> (None, [RevParseAbbrevRefHead wtPath])))"

section \<open>Branch slugs (src/utils/slug.ts, here src/unnamed/part_002)\<close>

text \<open>Replace every maximal run of characters that satisfy \<open>P\<close> by the one character
  \<open>r\<close>: a global \<open>replace\<close> of \<open>/\\s+/\<close> or \<open>/-+/\<close>.\<close>

function collapse_runs :: "(char \<Rightarrow> bool) \<Rightarrow> char \<Rightarrow> string \<Rightarrow> string" where
  "collapse_runs P r [] = []"
| "collapse_runs P r (c # cs) =
     (if P c then r # collapse_runs P r (dropWhile P cs) else c # collapse_runs P r cs)"
  by pat_completeness auto
termination
  by (relation "measure (\<lambda>(P, r, s). length s)")
     (auto simp add: length_dropWhile_le le_imp_less_Suc)

definition slug_char :: "char \<Rightarrow> bool" where
  "slug_char c =
     (let n = (of_char c :: nat)
      in (97 \<le> n \<and> n \<le> 122) \<or> (48 \<le> n \<and> n \<le> 57) \<or> is_space c \<or> c = CHR ''-'')"

text \<open>The global \<open>replace\<close> of \<open>/^-|-$/\<close>: one hyphen less at the start and at the end.\<close>

definition strip_hyphen_ends :: "string \<Rightarrow> string" where
  "strip_hyphen_ends s =
     (let s1 = (case s of c # cs \<Rightarrow> (if c = CHR ''-'' then cs else s) | [] \<Rightarrow> [])
      in if s1 \<noteq> [] \<and> last s1 = CHR ''-'' then butlast s1 else s1)"

text \<open>\<open>slugify\<close>, on ASCII titles.\<close>

definition slugify :: "string \<Rightarrow> string" where
  "slugify ttl =
     take 50 (strip_hyphen_ends
       (collapse_runs (\<lambda>c. c = CHR ''-'') (CHR ''-'')
         (collapse_runs is_space (CHR ''-'')
           (filter slug_char (toLowerCase ttl)))))"

definition createBranchSlug :: "string \<Rightarrow> string" where
  "createBranchSlug ttl = (let slug = slugify ttl in if slug = [] then ''task'' else slug)"

section \<open>Starting and continuing sessions (OpenCodeManager, in src/tasks/worktree.ts)\<close>

text \<open>The task record after \<open>subscribeToEvents\<close>: stream open, status timer armed.\<close>

definition newTask :: "string \<Rightarrow> nat \<Rightarrow> int \<Rightarrow> OpenCodeTaskStatus" where
  "newTask sid n now =
     \<lparr>sessionId = sid, issueNumber = n, startedAt = now, shareLink = None,
      eventSource = Some True, lastActivity = now, currentMessageBuffer = None,
      statusCheckInterval = Some True, lastTuiPopup = None, errorHandled = None\<rparr>"

text \<open>
  \<open>OpenCodeManager.startTask\<close>. \<open>checkConfiguration\<close>, between the creation of the
  session and the prompt, only logs and swallows its errors; it is left out.
\<close>

definition oc_startTask ::
  "world \<Rightarrow> int \<Rightarrow> (nat \<times> OpenCodeTaskStatus) list \<Rightarrow> Issue \<Rightarrow> string \<Rightarrow> string
     \<Rightarrow> (exn + OpenCodeTaskStatus) \<times> (nat \<times> OpenCodeTaskStatus) list \<times> effect list" where
  "oc_startTask w now tasks issue wtPath branch =
     (let ttl = ''Issue #'' @ show_nat (number issue) @ '': '' @ take 50 (title issue)
      in case createSession w ttl wtPath of
           Inl e \<Rightarrow> (Inl e, tasks, [CreateSession ttl wtPath])
         | Inr sid \<Rightarrow>
             (case sendPromptAsync w sid of
                Some e \<Rightarrow> (Inl e, tasks, [CreateSession ttl wtPath, SendPrompt sid])
              | None \<Rightarrow>
                  (let task = newTask sid (number issue) now
                   in (Inr task, AList.update (number issue) task tasks,
                       [CreateSession ttl wtPath, SendPrompt sid, Subscribe sid]))))"

definition oc_continueTask ::
  "world \<Rightarrow> int \<Rightarrow> (nat \<times> OpenCodeTaskStatus) list \<Rightarrow> Issue \<Rightarrow> string \<Rightarrow> string
     \<Rightarrow> string
     \<Rightarrow> (exn + OpenCodeTaskStatus) \<times> (nat \<times> OpenCodeTaskStatus) list \<times> effect list" where
  "oc_continueTask w now tasks issue wtPath previousSessionId newComment =
     (case getSession w previousSessionId of
        Some e \<Rightarrow>
          (let (r, tasks1, eff) =
                 oc_startTask w now tasks issue wtPath
                   (''ai/issue-'' @ show_nat (number issue) @ ''-recovery'')
           in (r, tasks1, GetSession previousSessionId # eff))
      | None \<Rightarrow>
          (case sendPromptAsync w previousSessionId of
             Some e \<Rightarrow>
               (Inl e, tasks, [GetSession previousSessionId, SendPrompt previousSessionId])
           | None \<Rightarrow>
               (let task = newTask previousSessionId (number issue) now
                in (Inr task, AList.update (number issue) task tasks,
                    [GetSession previousSessionId, SendPrompt previousSessionId,
                     Subscribe previousSessionId]))))"

section \<open>Lifecycle coordinator (TaskManager, src/tasks/manager.ts)\<close>

datatype TaskPhase =
    PhasePending | PhaseAnalysis | PhaseImplementation | PhaseTesting | PhaseQuality
  | PhaseCi | PhaseDocumentation | PhasePr | PhaseCompleted | PhaseBlocked | PhaseFailed

record TaskContext =
  ctx_issueNumber :: nat
  ctx_issue :: Issue
  ctx_branchName :: string
  ctx_worktreePath :: string
  ctx_phase :: TaskPhase
  ctx_startedAt :: int
  ctx_sessionId :: "string option"
  ctx_process :: "OpenCodeTaskStatus option"

text \<open>
  The state of the coordinator: its map of active tasks and the map of the supervisor
  (JavaScript \<open>Map\<close>s, kept in insertion order, as association lists), and the
  directories that exist.
\<close>

record tm_state =
  activeTasks :: "(nat \<times> TaskContext) list"
  ocTasks :: "(nat \<times> OpenCodeTaskStatus) list"
  fsDirs :: "string set"

definition getActiveCount :: "tm_state \<Rightarrow> nat" where
  "getActiveCount st = length (activeTasks st)"

definition canStartNewTask :: "Config \<Rightarrow> tm_state \<Rightarrow> bool" where
  "canStartNewTask cfg st = (length (activeTasks st) < maxConcurrentTasks cfg)"

text \<open>The completion callback that the coordinator hands to the supervisor.\<close>

definition onTaskComplete :: "tm_state \<Rightarrow> nat \<Rightarrow> tm_state" where
  "onTaskComplete st n = st\<lparr>activeTasks := AList.delete n (activeTasks st)\<rparr>"

definition startTask ::
  "Config \<Rightarrow> world \<Rightarrow> int \<Rightarrow> tm_state \<Rightarrow> Issue
     \<Rightarrow> (exn + TaskContext) \<times> tm_state \<times> effect list" where
  "startTask cfg w now st issue =
     (case map_of (activeTasks st) (number issue) of
        Some existing \<Rightarrow> (Inr existing, st, [])
      | None \<Rightarrow>
          (let slug = createBranchSlug (title issue);
               branch = getBranchName (number issue) slug;
               (r1, dirs1, g) = createWorktree cfg w (fsDirs st) (number issue) branch
           in case r1 of
                Inl e \<Rightarrow> (Inl e, st\<lparr>fsDirs := dirs1\<rparr>, map Git g)
              | Inr wtPath \<Rightarrow>
                  (let (r2, tasks1, eff) = oc_startTask w now (ocTasks st) issue wtPath branch
                   in case r2 of
                        Inl e \<Rightarrow>
                          (Inl e, st\<lparr>fsDirs := dirs1, ocTasks := tasks1\<rparr>, map Git g @ eff)
                      | Inr proc \<Rightarrow>
                          (let context =
                                 \<lparr>ctx_issueNumber = number issue, ctx_issue = issue,
                                  ctx_branchName = branch, ctx_worktreePath = wtPath,
                                  ctx_phase = PhaseAnalysis, ctx_startedAt = now,
                                  ctx_sessionId = Some (sessionId proc),
                                  ctx_process = Some proc\<rparr>
                           in (Inr context,
                               st\<lparr>fsDirs := dirs1, ocTasks := tasks1,
                                  activeTasks :=
                                    AList.update (number issue) context (activeTasks st)\<rparr>,
                               map Git g @ eff)))))"

definition continueBlockedTask ::
  "Config \<Rightarrow> world \<Rightarrow> int \<Rightarrow> tm_state \<Rightarrow> Issue
     \<Rightarrow> (exn + TaskContext option) \<times> tm_state \<times> effect list" where
  "continueBlockedTask cfg w now st issue =
     (case getLatestHumanComment cfg issue of
        None \<Rightarrow> (Inr None, st, [])
      | Some latestComment \<Rightarrow>
          (let context = map_of (activeTasks st) (number issue);
               wtPath = getWorktreePath cfg (number issue);
               (branch, g) = getCurrentBranch cfg w (fsDirs st) (number issue)
           in if \<not> truthy_str branch then (Inr None, st, map Git g)
              else
                (let previousSessionId =
                       (case sor (case context of None \<Rightarrow> None | Some c \<Rightarrow> ctx_sessionId c)
                               (Some ''unknown'') of
                          Some s \<Rightarrow> s | None \<Rightarrow> ''unknown'');
                     (r, tasks1, eff) =
                       oc_continueTask w now (ocTasks st) issue wtPath previousSessionId
                         (comment_body latestComment)
                 in case r of
                      Inl e \<Rightarrow> (Inl e, st\<lparr>ocTasks := tasks1\<rparr>, map Git g @ eff)
                    | Inr proc \<Rightarrow>
                        (let context1 =
                               \<lparr>ctx_issueNumber = number issue, ctx_issue = issue,
                                ctx_branchName = (case branch of Some b \<Rightarrow> b | None \<Rightarrow> []),
                                ctx_worktreePath = wtPath,
                                ctx_phase = PhaseImplementation,
                                ctx_startedAt =
                                  (case context of Some c \<Rightarrow> ctx_startedAt c | None \<Rightarrow> now),
                                ctx_sessionId = Some (sessionId proc),
                                ctx_process = Some proc\<rparr>
                         in (Inr (Some context1),
                             st\<lparr>ocTasks := tasks1,
                                activeTasks :=
                                  AList.update (number issue) context1 (activeTasks st)\<rparr>,
                             map Git g @ eff)))))"

text \<open>The number of in-memory tasks whose phase is neither completed nor failed.\<close>

definition liveCount :: "tm_state \<Rightarrow> nat" where
  "liveCount st =
     length (filter (\<lambda>kv. ctx_phase (snd kv) \<noteq> PhaseCompleted
                          \<and> ctx_phase (snd kv) \<noteq> PhaseFailed) (activeTasks st))"

section \<open>Scheduler (GitHubTaskOrchestrator, src/unnamed/part_001)\<close>

datatype poll_log =
    AtMaxConcurrentTasks
  | NoNewTasksFound
  | StartedTask Issue
  | FailedToStartTask Issue exn
  | ResumedBlockedTask Issue
  | FailedToResumeTask Issue exn

text \<open>The \<open>for\<close> loop of \<open>checkNewTasks\<close> over the sorted issues. Time does not advance
  during a scan.\<close>

fun admitLoop ::
  "Config \<Rightarrow> world \<Rightarrow> int \<Rightarrow> tm_state \<Rightarrow> Issue list
     \<Rightarrow> tm_state \<times> poll_log list \<times> effect list" where
  "admitLoop cfg w now st [] = (st, [], [])"
| "admitLoop cfg w now st (issue # rest) =
     (if \<not> canStartNewTask cfg st then (st, [], [])
      else if isReadyForPickup issue \<and> isUserAllowed issue cfg then
        (let (r, st1, eff) = startTask cfg w now st issue;
             entry = (case r of
                        Inr c \<Rightarrow> StartedTask issue
                      | Inl e \<Rightarrow> FailedToStartTask issue e);
             (st2, logs, eff2) = admitLoop cfg w now st1 rest
         in (st2, entry # logs, eff @ eff2))
      else admitLoop cfg w now st rest)"

text \<open>
  \<open>checkNewTasks\<close>. The outer \<open>option\<close> is \<open>None\<close> when fetching the comments does
  not end; the error is the one \<open>getIssuesWithLabel\<close> rethrows.
\<close>

definition checkNewTasks ::
  "Config \<Rightarrow> world \<Rightarrow> int \<Rightarrow> tm_state
     \<Rightarrow> ((exn + unit) \<times> tm_state \<times> poll_log list \<times> effect list) option" where
  "checkNewTasks cfg w now st =
     (if \<not> canStartNewTask cfg st then Some (Inr (), st, [AtMaxConcurrentTasks], [])
      else
        (case getIssuesWithLabel (github w) AI_TASK [AI_IN_PROGRESS] of
           None \<Rightarrow> None
         | Some (Inl e) \<Rightarrow> Some (Inl e, st, [], [])
         | Some (Inr issues) \<Rightarrow>
             (if length issues = 0 then Some (Inr (), st, [NoNewTasksFound], [])
              else
                (let sorted = sortByPriority issues;
                     (st1, logs, eff) = admitLoop cfg w now st sorted
                 in Some (Inr (), st1, logs, eff)))))"

fun resumeLoop ::
  "Config \<Rightarrow> world \<Rightarrow> int \<Rightarrow> tm_state \<Rightarrow> Issue list
     \<Rightarrow> tm_state \<times> poll_log list \<times> effect list" where
  "resumeLoop cfg w now st [] = (st, [], [])"
| "resumeLoop cfg w now st (issue # rest) =
     (let blockedSince =
            (case map_of (activeTasks st) (number issue) of
               Some task \<Rightarrow> ctx_startedAt task | None \<Rightarrow> 0)
      in if hasNewComments cfg issue blockedSince then
           (let (r, st1, eff) = continueBlockedTask cfg w now st issue;
                entry = (case r of
                           Inr c \<Rightarrow> ResumedBlockedTask issue
                         | Inl e \<Rightarrow> FailedToResumeTask issue e);
                (st2, logs, eff2) = resumeLoop cfg w now st1 rest
            in (st2, entry # logs, eff @ eff2))
         else resumeLoop cfg w now st rest)"

definition checkBlockedTasks ::
  "Config \<Rightarrow> world \<Rightarrow> int \<Rightarrow> tm_state
     \<Rightarrow> ((exn + unit) \<times> tm_state \<times> poll_log list \<times> effect list) option" where
  "checkBlockedTasks cfg w now st =
     (case getIssuesWithLabel (github w) AI_BLOCKED [] of
        None \<Rightarrow> None
      | Some (Inl e) \<Rightarrow> Some (Inl e, st, [], [])
      | Some (Inr blockedIssues) \<Rightarrow>
          (let (st1, logs, eff) = resumeLoop cfg w now st blockedIssues
           in Some (Inr (), st1, logs, eff)))"

text \<open>Effects on the agent runtime, as opposed to git subcommands.\<close>

definition isSessionEffect :: "effect \<Rightarrow> bool" where
  "isSessionEffect e = (case e of Git g \<Rightarrow> False | _ \<Rightarrow> True)"



text \<open>
  A project after a restart of the orchestrator: nothing in memory, the workspace of the
  blocked issue 2 on disk, one ready issue 1, a reply of a human on issue 2, and room
  for one task.
\<close>

definition exampleConfig :: Config where
  "exampleConfig =
     \<lparr>username = ''ai-bot'', allowedUsers = [], maxConcurrentTasks = 1,
      projectPath = ''/repo'', worktreeDir = ''.worktrees''\<rparr>"

definition apiIssue :: "nat \<Rightarrow> string list \<Rightarrow> int \<Rightarrow> api_issue" where
  "apiIssue n ls t =
     \<lparr>api_number = n, api_title = ''Add login'', api_body = None,
      api_labels = map (\<lambda>l. LabelObject (Some l)) ls, created_at = t, updated_at = t\<rparr>"

definition humanReply :: api_comment where
  "humanReply =
     \<lparr>api_id = 7, api_comment_body = Some ''use OAuth'', api_user_login = Some ''alice'',
      api_created_at = 200\<rparr>"

definition exampleTracker :: tracker where
  "exampleTracker =
     \<lparr>listForRepo =
        (\<lambda>req. if req_labels req = ''ai-task'' then Inr [apiIssue 1 [''ai-task''] 100]
               else if req_labels req = ''ai-blocked'' then Inr [apiIssue 2 [''ai-blocked''] 50]
               else Inr []),
      listComments = (\<lambda>n page. if n = 2 \<and> page = 1 then Inr [humanReply] else Inr []),
      removeLabelCall = (\<lambda>n l. None),
      addLabelsCall = (\<lambda>n l. None),
      createCommentCall = (\<lambda>n b. None)\<rparr>"

definition exampleWorld :: world where
  "exampleWorld =
     \<lparr>git = (\<lambda>c. case c of
                    SymbolicRefOriginHead \<Rightarrow> Some (''refs/remotes/origin/main'' @ [CHR 0x0A])
                  | ShowRefVerify r \<Rightarrow> None
                  | RevParseAbbrevRefHead d \<Rightarrow> Some (''ai/issue-2-login'' @ [CHR 0x0A])
                  | _ \<Rightarrow> Some []),
      createSession = (\<lambda>ttl d. Inr (''ses:'' @ d)),
      getSession = (\<lambda>s. if s = ''unknown'' then Some (FetchError ''Failed to get session'')
                         else None),
      sendPromptAsync = (\<lambda>s. None),
      github = exampleTracker\<rparr>"

definition restartState :: tm_state where
  "restartState =
     \<lparr>activeTasks = [], ocTasks = [],
      fsDirs = {''/repo/.worktrees'', ''/repo/.worktrees/issue-2''}\<rparr>"

definition issue1 :: Issue where
  "issue1 = toIssue (apiIssue 1 [''ai-task''] 100) []"

definition issue2 :: Issue where
  "issue2 = toIssue (apiIssue 2 [''ai-blocked''] 50) [toComment humanReply]"

definition afterDiscovery :: tm_state where
  "afterDiscovery = fst (admitLoop exampleConfig exampleWorld 1000 restartState [issue1])"

definition afterResume :: tm_state where
  "afterResume = fst (resumeLoop exampleConfig exampleWorld 1000 afterDiscovery [issue2])"

text \<open>The state in which a scan leaves the coordinator.\<close>

definition scanState ::
  "((exn + unit) \<times> tm_state \<times> poll_log list \<times> effect list) option \<Rightarrow> tm_state option" where
  "scanState r = map_option (\<lambda>x. fst (snd x)) r"

text \<open>The first start of issue 1 after the restart.\<close>

definition firstStart :: "(exn + TaskContext) \<times> tm_state \<times> effect list" where
  "firstStart = startTask exampleConfig exampleWorld 1000 restartState issue1"

text \<open>A blocked issue on which only the orchestrator's own account has commented, and a
  state without any workspace on disk.\<close>

definition botOnlyIssue :: Issue where
  "botOnlyIssue =
     toIssue (apiIssue 3 [''ai-blocked''] 60)
       [\<lparr>comment_id = 9, comment_body = ''Blocked: which provider?'',
         comment_author = ''ai-bot'', comment_createdAt = 70\<rparr>]"

definition noWorkspaceState :: tm_state where
  "noWorkspaceState = \<lparr>activeTasks = [], ocTasks = [], fsDirs = {''/repo/.worktrees''}\<rparr>"







text \<open>
  The blocked issue 42 of \<open>exampleTask\<close>, with the reply of a human, and the records
  of its task: after a \<open>session.error\<close> event, and after a continuation.
\<close>

definition issue42 :: Issue where
  "issue42 = toIssue (apiIssue 42 [''ai-blocked''] 50) [toComment humanReply]"

definition flaggedTask :: OpenCodeTaskStatus where
  "flaggedTask = fst (handleEvent exampleBuiltins 5000 exampleTask sessionErrorEvent)"

definition continuedTask :: OpenCodeTaskStatus where
  "continuedTask = newTask ''ses_1'' 42 9000"

text \<open>Is the error-handled flag of the task of an issue set, in the supervisor's map.\<close>

definition issueFlagSet :: "(nat \<times> OpenCodeTaskStatus) list \<Rightarrow> nat \<Rightarrow> bool" where
  "issueFlagSet tasks n = (case map_of tasks n of None \<Rightarrow> False | Some t \<Rightarrow> flagSet t)"

text \<open>
  The calls on the tracker that the recoveries among a list of supervisor actions make:
  each \<open>HandleSessionError\<close> stands for one run of \<open>handleSessionError\<close>.
\<close>

definition trackerCalls :: "builtins \<Rightarrow> tracker \<Rightarrow> sup_action list \<Rightarrow> recovery_step list" where
  "trackerCalls rt gh acts =
     concat (map (\<lambda>a. case a of
                          HandleSessionError n e l \<Rightarrow> handleSessionError rt gh n e l
                        | _ \<Rightarrow> []) acts)"

definition isLabelRevert :: "recovery_step \<Rightarrow> bool" where
  "isLabelRevert s = (case s of CallRemoveLabel n l \<Rightarrow> True | _ \<Rightarrow> False)"

definition isCommentPost :: "recovery_step \<Rightarrow> bool" where
  "isCommentPost s = (case s of CallPostComment n b \<Rightarrow> True | _ \<Rightarrow> False)"

section \<open>Properties of the quality gates\<close>

lemma runGatesLoop_prefix:
  "runGatesLoop env p gates =
     map (runGate env p)
       (takeWhile (\<lambda>g. \<not> stopsPipeline env p g) gates
        @ take 1 (dropWhile (\<lambda>g. \<not> stopsPipeline env p g) gates))"
  by (induction gates) (simp_all add: stopsPipeline_def Let_def)

text \<open>
  C7. \<open>runAllGates\<close> runs the detected gates in order and stops right after the first
  gate that is required and fails: its result list is the results of the gates before
  that gate followed by the result of that gate, and nothing of what follows it. When
  detection itself throws, so does \<open>runAllGates\<close>.
\<close>

theorem runAllGates_stops_at_first_required_failure:
  "runAllGates env p =
     (case detectGates env p of
        Inl e \<Rightarrow> Inl e
      | Inr gates \<Rightarrow>
          Inr (map (runGate env p)
                 (takeWhile (\<lambda>g. \<not> stopsPipeline env p g) gates
                  @ take 1 (dropWhile (\<lambda>g. \<not> stopsPipeline env p g) gates))))"
  by (simp add: runAllGates_def runGatesLoop_prefix split: sum.splits)

text \<open>
  C8. \<open>allRequiredPassed\<close> detects the gates at the empty path, that is in the working
  directory of the process, not in the workspace the results come from. In the workspace
  above the only gate, the required gate Linting, is run and fails, and
  \<open>allRequiredPassed\<close> answers true on exactly these results.
\<close>

theorem allRequiredPassed_detects_at_empty_path:
  "detectGates lintOnlyEnv lintOnlyWorkspace
     = Inr [\<lparr>name = ''Linting'', commands = [''npm'', ''run'', ''lint''], required = True\<rparr>]
   \<and> runAllGates lintOnlyEnv lintOnlyWorkspace = Inr [failedLint]
   \<and> \<not> passed failedLint
   \<and> detectGates lintOnlyEnv [] = Inr []
   \<and> allRequiredPassed lintOnlyEnv [failedLint] = Inr True"
  by (simp add: allRequiredPassed_def runAllGates_def detectGates_def lintOnlyEnv_def
      lintOnlyWorkspace_def failedLint_def packageJsonGates_def pythonGates_def rustGates_def
      path_join_def mkGate_def runGate_def stopsPipeline_def sor_def truthy_str_def Let_def)

section \<open>Properties of the tracker client\<close>

text \<open>
  C9. \<open>removeLabel\<close> completes without raising when the tracker's call succeeds or
  throws an error whose status is 404; when the call throws an error with any other
  status, \<open>removeLabel\<close> throws that same error.
\<close>

theorem removeLabel_ignores_404:
  "(removeLabelCall gh n l = None \<longrightarrow> removeLabel gh n l = Inr ())
   \<and> (\<forall>e. removeLabelCall gh n l = Some e \<and> errStatus e = JNum 404
          \<longrightarrow> removeLabel gh n l = Inr ())
   \<and> (\<forall>e. removeLabelCall gh n l = Some e \<and> errStatus e \<noteq> JNum 404
          \<longrightarrow> removeLabel gh n l = Inl e)"
  by (simp add: removeLabel_def)

theorem removeLabel_ignores_404_witness:
  "removeLabelCall tracker404 12 AI_IN_PROGRESS = Some (RequestError (JNum 404))
   \<and> errStatus (RequestError (JNum 404)) = JNum 404
   \<and> removeLabel tracker404 12 AI_IN_PROGRESS = Inr ()
   \<and> removeLabelCall tracker500 12 AI_IN_PROGRESS = Some (RequestError (JNum 500))
   \<and> errStatus (RequestError (JNum 500)) \<noteq> JNum 404
   \<and> removeLabel tracker500 12 AI_IN_PROGRESS = Inl (RequestError (JNum 500))"
  using removeLabel_ignores_404 [of tracker404 12 AI_IN_PROGRESS]
        removeLabel_ignores_404 [of tracker500 12 AI_IN_PROGRESS]
  by (simp add: tracker404_def tracker500_def errStatus_def)

section \<open>Properties of the session supervisor\<close>

lemma closeStream_errorHandled [simp]: "errorHandled (closeStream t) = errorHandled t"
  by (simp add: closeStream_def Let_def split: option.splits)

lemma handleIdle_flag:
  "flagSet t \<Longrightarrow> flagSet (fst (handleIdle now t ev)) \<and> filter isRecovery (snd (handleIdle now t ev)) = []"
  by (simp add: handleIdle_def Let_def flagSet_def isRecovery_def split: prod.splits if_splits)

lemma handleIdle_once:
  "length (filter isRecovery (snd (handleIdle now t ev))) \<le> 1
   \<and> (filter isRecovery (snd (handleIdle now t ev)) \<noteq> [] \<longrightarrow> flagSet (fst (handleIdle now t ev)))"
  by (simp add: handleIdle_def Let_def flagSet_def isRecovery_def split: prod.splits if_splits)

lemma handleSessionStatus_flag:
  "flagSet t \<Longrightarrow> flagSet (fst (handleSessionStatus t ev)) \<and> filter isRecovery (snd (handleSessionStatus t ev)) = []"
  by (simp add: handleSessionStatus_def Let_def flagSet_def isRecovery_def)

lemma handleSessionStatus_once:
  "length (filter isRecovery (snd (handleSessionStatus t ev))) \<le> 1
   \<and> (filter isRecovery (snd (handleSessionStatus t ev)) \<noteq> [] \<longrightarrow> flagSet (fst (handleSessionStatus t ev)))"
  by (simp add: handleSessionStatus_def Let_def flagSet_def isRecovery_def)

lemma handlePart_quiet:
  "errorHandled (fst (handlePart t ev)) = errorHandled t \<and> filter isRecovery (snd (handlePart t ev)) = []"
  by (simp add: handlePart_def Let_def isRecovery_def split: option.splits)

lemma handleTui_quiet:
  "errorHandled (fst (handleTui rt t ev)) = errorHandled t \<and> filter isRecovery (snd (handleTui rt t ev)) = []"
  by (simp add: handleTui_def Let_def isRecovery_def split: option.splits)

lemma handleOther_quiet:
  "errorHandled (fst (handleOther t ev)) = errorHandled t \<and> filter isRecovery (snd (handleOther t ev)) = []"
  by (simp add: handleOther_def Let_def isRecovery_def split: jsval.splits prod.splits)

lemma messageUpdatedDiag_quiet: "filter isRecovery (messageUpdatedDiag ev) = []"
  by (simp add: messageUpdatedDiag_def Let_def isRecovery_def split: jsval.splits)

lemma flagSet_lastActivity [simp]: "flagSet (t\<lparr>lastActivity := n\<rparr>) = flagSet t"
  by (simp add: flagSet_def)

lemma handleEvent_unfold:
  "handleEvent rt now t ev =
     (let task = t\<lparr>lastActivity := now\<rparr>;
          a0 = [Log Debug ''OpenCode event received'']
               @ (if etype ev = ''message.updated'' then messageUpdatedDiag ev else []);
          r = (if etype ev = ''message.part.updated'' \<or> etype ev = ''message.chunk''
                 then handlePart task ev
               else if etype ev = ''error''
                 then (task, [Log Error ''OpenCode error event''])
               else if startsWith (etype ev) ''tui.''
                 then handleTui rt task ev
               else if etype ev = ''session.idle''
                 then handleIdle now task ev
               else if etype ev = ''session.status'' \<or> etype ev = ''session.error''
                       \<or> etype ev = ''session.blocked''
                 then handleSessionStatus task ev
               else if etype ev = ''todo.updated''
                 then (task, [Log Info ''Todo list updated''])
               else handleOther task ev)
      in if Thrown \<in> set a0 then (task, a0) else (fst r, a0 @ snd r))"
  by (simp add: handleEvent_def Let_def case_prod_beta)

lemma handleEvent_flag:
  assumes "flagSet t"
  shows "flagSet (fst (handleEvent rt now t ev)) \<and> filter isRecovery (snd (handleEvent rt now t ev)) = []"
proof -
  let ?t = "t\<lparr>lastActivity := now\<rparr>"
  have f: "flagSet ?t" using assms by simp
  note idle = handleIdle_flag [OF f, of now ev]
  note st = handleSessionStatus_flag [OF f, of ev]
  note part = handlePart_quiet [of ?t ev]
  note tui = handleTui_quiet [of rt ?t ev]
  note oth = handleOther_quiet [of ?t ev]
  have q: "\<And>r. errorHandled (fst r) = errorHandled ?t \<and> filter isRecovery (snd r) = []
             \<Longrightarrow> flagSet (fst r) \<and> filter isRecovery (snd r) = []"
    using f by (simp add: flagSet_def)
  show ?thesis
    unfolding handleEvent_unfold Let_def
    using f idle st q [OF part] q [OF tui] q [OF oth]
    by (simp add: messageUpdatedDiag_quiet isRecovery_def)
qed

lemma handleEvent_once:
  "length (filter isRecovery (snd (handleEvent rt now t ev))) \<le> 1
   \<and> (filter isRecovery (snd (handleEvent rt now t ev)) \<noteq> [] \<longrightarrow> flagSet (fst (handleEvent rt now t ev)))"
proof -
  let ?t = "t\<lparr>lastActivity := now\<rparr>"
  note idle = handleIdle_once [of now ?t ev]
  note st = handleSessionStatus_once [of ?t ev]
  note part = handlePart_quiet [of ?t ev]
  note tui = handleTui_quiet [of rt ?t ev]
  note oth = handleOther_quiet [of ?t ev]
  show ?thesis
    unfolding handleEvent_unfold Let_def
    using idle st part tui oth
    by (simp add: messageUpdatedDiag_quiet isRecovery_def)
qed

lemma checkSessionStatus_quiet:
  "fst (checkSessionStatus now sts t) = t \<and> filter isRecovery (snd (checkSessionStatus now sts t)) = []"
  by (simp add: checkSessionStatus_def isRecovery_def split: sum.splits option.splits)

lemma observe_flag:
  "flagSet t \<Longrightarrow> flagSet (fst (observe rt t ob)) \<and> filter isRecovery (snd (observe rt t ob)) = []"
  by (cases ob) (simp_all add: observe_def handleEvent_flag checkSessionStatus_quiet)

lemma observe_once:
  "length (filter isRecovery (snd (observe rt t ob))) \<le> 1
   \<and> (filter isRecovery (snd (observe rt t ob)) \<noteq> [] \<longrightarrow> flagSet (fst (observe rt t ob)))"
proof (cases ob)
  case (PushEvent now ev)
  with handleEvent_once [of rt now t ev] show ?thesis by (simp add: observe_def)
next
  case (StatusPoll now sts)
  with checkSessionStatus_quiet [of now sts t] show ?thesis by (simp add: observe_def)
qed

lemma supervise_flag:
  "flagSet t \<Longrightarrow> flagSet (fst (supervise rt t obs)) \<and> filter isRecovery (snd (supervise rt t obs)) = []"
proof (induction obs arbitrary: t)
  case Nil
  then show ?case by simp
next
  case (Cons ob obs)
  from observe_flag [OF Cons.prems, of rt ob]
  have 1: "flagSet (fst (observe rt t ob))" and 2: "filter isRecovery (snd (observe rt t ob)) = []"
    by simp_all
  from Cons.IH [OF 1] 2 show ?case
    by (simp add: case_prod_beta Let_def)
qed

lemma supervise_once: "length (filter isRecovery (snd (supervise rt t obs))) \<le> 1"
proof (induction obs arbitrary: t)
  case Nil
  then show ?case by simp
next
  case (Cons ob obs)
  show ?case
  proof (cases "filter isRecovery (snd (observe rt t ob)) = []")
    case True
    with Cons.IH [of "fst (observe rt t ob)"] show ?thesis
      by (simp add: case_prod_beta Let_def)
  next
    case False
    with observe_once [of rt t ob] have "flagSet (fst (observe rt t ob))"
      and "length (filter isRecovery (snd (observe rt t ob))) \<le> 1" by simp_all
    with supervise_flag [of "fst (observe rt t ob)" rt obs] show ?thesis
      by (simp add: case_prod_beta Let_def)
  qed
qed

lemma supervise_append:
  "supervise rt t (xs @ ys) =
     (fst (supervise rt (fst (supervise rt t xs)) ys),
      snd (supervise rt t xs) @ snd (supervise rt (fst (supervise rt t xs)) ys))"
  by (induction xs arbitrary: t) (simp_all add: case_prod_beta Let_def)

lemma trackerCalls_recoveries:
  "trackerCalls rt gh acts = trackerCalls rt gh (filter isRecovery acts)"
  by (induction acts) (simp_all add: trackerCalls_def isRecovery_def split: sup_action.splits)

lemma handleSessionError_calls:
  "length (filter isLabelRevert (handleSessionError rt gh n e l)) = 1
   \<and> length (filter isCommentPost (handleSessionError rt gh n e l)) \<le> 1"
  by (simp add: handleSessionError_def isLabelRevert_def isCommentPost_def Let_def
      split: sum.splits jsval.splits)

lemma trackerCalls_once:
  assumes "length (filter isRecovery acts) \<le> 1"
  shows "length (filter isLabelRevert (trackerCalls rt gh acts)) \<le> 1
         \<and> length (filter isCommentPost (trackerCalls rt gh acts)) \<le> 1"
proof (cases "filter isRecovery acts")
  case Nil
  with trackerCalls_recoveries [of rt gh acts]
  have "trackerCalls rt gh acts = trackerCalls rt gh []" by simp
  also have "\<dots> = []" by (simp add: trackerCalls_def)
  finally show ?thesis by simp
next
  case (Cons a rest)
  with assms have r: "rest = []" by simp
  have "a \<in> set (filter isRecovery acts)" using Cons by simp
  then have "isRecovery a" by simp
  then obtain n e l where a: "a = HandleSessionError n e l"
    by (cases a) (simp_all add: isRecovery_def)
  from trackerCalls_recoveries [of rt gh acts] Cons r a
  have "trackerCalls rt gh acts = trackerCalls rt gh [HandleSessionError n e l]" by simp
  also have "\<dots> = handleSessionError rt gh n e l" by (simp add: trackerCalls_def)
  finally have "trackerCalls rt gh acts = handleSessionError rt gh n e l" .
  then show ?thesis using handleSessionError_calls [of rt gh n e l] by simp
qed

text \<open>
  One task record. Whatever observations the handlers of one record receive (idle events
  with an error payload, explicit error or blocked events, immediate-failure idles,
  status polls), in whatever number and order, \<open>handleSessionError\<close> is called at most
  once for that record; once the error-handled flag of the record is true it is true
  after every further observation, none of which calls \<open>handleSessionError\<close> again;
  the in-progress label is removed at most once and at most one diagnostic comment is
  posted.
\<close>

theorem recovery_at_most_once:
  "length (filter isRecovery (snd (supervise rt task obs))) \<le> 1
   \<and> (flagSet (fst (supervise rt task obs))
        \<longrightarrow> flagSet (fst (supervise rt task (obs @ later)))
            \<and> filter isRecovery (snd (supervise rt (fst (supervise rt task obs)) later)) = [])
   \<and> length (filter isLabelRevert (trackerCalls rt gh (snd (supervise rt task obs)))) \<le> 1
   \<and> length (filter isCommentPost (trackerCalls rt gh (snd (supervise rt task obs)))) \<le> 1"
  using supervise_once [of rt task obs]
        supervise_flag [of "fst (supervise rt task obs)" rt later]
        trackerCalls_once [OF supervise_once [of rt task obs], of rt gh]
  by (simp add: supervise_append)

lemmas example_defs = exampleTask_def exampleBuiltins_def idleEvent_def sessionErrorEvent_def
  emptyPayload_def rateLimitError_def errorStatuses_def

lemmas handler_defs = handleEvent_def handleIdle_def handleSessionStatus_def
  checkSessionStatus_def observe_def flagSet_def isRecovery_def sor_def truthy_str_def
  propsField_def propsOrEvent_def jor_def closeStream_def startsWith_def
  IMMEDIATE_FAILURE_MS_def MIN_SESSION_DURATION_MS_def Let_def

theorem recovery_at_most_once_witness:
  "flagSet (fst (supervise exampleBuiltins exampleTask
       [PushEvent 5000 (idleEvent rateLimitError)]))
   \<and> flagSet (fst (supervise exampleBuiltins exampleTask
       ([PushEvent 5000 (idleEvent rateLimitError)]
        @ [PushEvent 5001 sessionErrorEvent, StatusPoll 6000 errorStatuses,
           PushEvent 6500 (idleEvent JUndefined)])))
   \<and> length (filter isRecovery (snd (supervise exampleBuiltins exampleTask
       [PushEvent 5000 (idleEvent rateLimitError)]))) = 1
   \<and> filter isRecovery (snd (supervise exampleBuiltins
         (fst (supervise exampleBuiltins exampleTask
            [PushEvent 5000 (idleEvent rateLimitError)]))
         [PushEvent 5001 sessionErrorEvent, StatusPoll 6000 errorStatuses,
           PushEvent 6500 (idleEvent JUndefined)])) = []"
proof -
  have h: "flagSet (fst (supervise exampleBuiltins exampleTask
       [PushEvent 5000 (idleEvent rateLimitError)]))"
    by (simp add: example_defs handler_defs)
  have c: "length (filter isRecovery (snd (supervise exampleBuiltins exampleTask
       [PushEvent 5000 (idleEvent rateLimitError)]))) = 1"
    by (simp add: example_defs handler_defs)
  from recovery_at_most_once [of exampleBuiltins exampleTask
      "[PushEvent 5000 (idleEvent rateLimitError)]"
      "[PushEvent 5001 sessionErrorEvent, StatusPoll 6000 errorStatuses,
           PushEvent 6500 (idleEvent JUndefined)]"] h c
  show ?thesis by blast
qed

text \<open>
  C1. The claim is about the task of an issue, from its admission to its terminal
  outcome, and the code breaks it when the task is continued. The record of the task of
  issue 42 has its error-handled flag set by a \<open>session.error\<close> event, with one
  recovery. \<open>continueTask\<close> then puts a new record for the same issue and the same
  session into the supervisor's map, with the flag unset, and subscribes it; the stream
  of the record it replaces is still open. The flag of the task has gone from true to
  unset, and the next \<open>session.error\<close> event runs the recovery a second time for the
  issue. When the replaced record had not handled an error, one such event is handled by
  the handlers of both records: two recoveries for one failure signal.
\<close>

theorem continuation_forgets_error_handled:
  "\<not> flagSet exampleTask
   \<and> length (filter isRecovery
        (snd (handleEvent exampleBuiltins 5000 exampleTask sessionErrorEvent))) = 1
   \<and> flagSet flaggedTask
   \<and> issueFlagSet [(42, flaggedTask)] 42
   \<and> eventSource flaggedTask = Some True
   \<and> oc_continueTask exampleWorld 9000 [(42, flaggedTask)] issue42 ''/repo/.worktrees/issue-42''
        ''ses_1'' ''use OAuth''
       = (Inr continuedTask, [(42, continuedTask)],
          [GetSession ''ses_1'', SendPrompt ''ses_1'', Subscribe ''ses_1''])
   \<and> issueNumber continuedTask = issueNumber flaggedTask
   \<and> sessionId continuedTask = sessionId flaggedTask
   \<and> \<not> issueFlagSet [(42, continuedTask)] 42
   \<and> length (filter isRecovery
        (snd (handleEvent exampleBuiltins 9500 continuedTask sessionErrorEvent))) = 1
   \<and> fst (oc_continueTask exampleWorld 9000 [(42, exampleTask)] issue42
        ''/repo/.worktrees/issue-42'' ''ses_1'' ''use OAuth'') = Inr continuedTask
   \<and> eventSource exampleTask = Some True
   \<and> length (filter isRecovery
        (snd (handleEvent exampleBuiltins 9500 exampleTask sessionErrorEvent)
         @ snd (handleEvent exampleBuiltins 9500 continuedTask sessionErrorEvent))) = 2"
  by code_simp






text \<open>
  C3, as stated, fails: a status poll that observes the session of a task in the error
  state logs one warning and nothing else. The task is unchanged, its error-handled flag
  stays unset and \<open>handleSessionError\<close> is not called, whereas the explicit error event
  on the push channel calls it on the same task.
\<close>

theorem status_poll_counterexample:
  "\<not> flagSet exampleTask
   \<and> checkSessionStatus 20000 errorStatuses exampleTask
       = (exampleTask, [Log Warn ''Session status check detected error/blocked state''])
   \<and> filter isRecovery (snd (checkSessionStatus 20000 errorStatuses exampleTask)) = []
   \<and> \<not> flagSet (fst (checkSessionStatus 20000 errorStatuses exampleTask))
   \<and> length (filter isRecovery
        (snd (handleEvent exampleBuiltins 20000 exampleTask sessionErrorEvent))) = 1"
  by (simp add: example_defs handler_defs)

lemma handleEvent_status:
  "etype ev = ''session.status'' \<or> etype ev = ''session.error'' \<or> etype ev = ''session.blocked''
   \<Longrightarrow> handleEvent rt now task ev
     = (fst (handleSessionStatus (task\<lparr>lastActivity := now\<rparr>) ev),
        Log Debug ''OpenCode event received''
          # snd (handleSessionStatus (task\<lparr>lastActivity := now\<rparr>) ev))"
  by (auto simp add: handleEvent_unfold Let_def startsWith_def)

text \<open>
  C3, amended. A status poll never changes the task and never calls
  \<open>handleSessionError\<close>; when it observes the session in the error or blocked state it
  logs a warning. The recovery is started by the push channel only: a
  \<open>session.status\<close>, \<open>session.error\<close> or \<open>session.blocked\<close> event that carries an
  error or the state error or blocked leaves the error-handled flag set and calls
  \<open>handleSessionError\<close> once if the flag was not set before, and not at all if it was.
\<close>

theorem status_poll_only_logs:
  "fst (checkSessionStatus now statuses task) = task
   \<and> filter isRecovery (snd (checkSessionStatus now statuses task)) = []
   \<and> (\<forall>m s. statuses = Inr m \<and> m (sessionId task) = Some s
              \<and> (s = StateError \<or> s = StateBlocked)
        \<longrightarrow> Log Warn ''Session status check detected error/blocked state''
              \<in> set (snd (checkSessionStatus now statuses task)))
   \<and> ((etype ev = ''session.status'' \<or> etype ev = ''session.error''
          \<or> etype ev = ''session.blocked'')
        \<and> (truthy (jor (error (propsOrEvent ev)) (error (self ev)))
           \<or> jor (state (propsOrEvent ev)) (status (propsOrEvent ev)) = JStr ''error''
           \<or> jor (state (propsOrEvent ev)) (status (propsOrEvent ev)) = JStr ''blocked'')
        \<longrightarrow> flagSet (fst (handleEvent rt now task ev))
            \<and> length (filter isRecovery (snd (handleEvent rt now task ev)))
                = (if flagSet task then 0 else 1))"
proof -
  have a: "fst (checkSessionStatus now statuses task) = task
    \<and> filter isRecovery (snd (checkSessionStatus now statuses task)) = []"
    by (rule checkSessionStatus_quiet)
  have b: "\<forall>m s. statuses = Inr m \<and> m (sessionId task) = Some s
              \<and> (s = StateError \<or> s = StateBlocked)
        \<longrightarrow> Log Warn ''Session status check detected error/blocked state''
              \<in> set (snd (checkSessionStatus now statuses task))"
    by (auto simp add: checkSessionStatus_def)
  have c: "(etype ev = ''session.status'' \<or> etype ev = ''session.error''
          \<or> etype ev = ''session.blocked'')
        \<and> (truthy (jor (error (propsOrEvent ev)) (error (self ev)))
           \<or> jor (state (propsOrEvent ev)) (status (propsOrEvent ev)) = JStr ''error''
           \<or> jor (state (propsOrEvent ev)) (status (propsOrEvent ev)) = JStr ''blocked'')
        \<longrightarrow> flagSet (fst (handleEvent rt now task ev))
            \<and> length (filter isRecovery (snd (handleEvent rt now task ev)))
                = (if flagSet task then 0 else 1)"
  proof (intro impI, elim conjE)
    assume t: "etype ev = ''session.status'' \<or> etype ev = ''session.error''
          \<or> etype ev = ''session.blocked''"
      and e: "truthy (jor (error (propsOrEvent ev)) (error (self ev)))
           \<or> jor (state (propsOrEvent ev)) (status (propsOrEvent ev)) = JStr ''error''
           \<or> jor (state (propsOrEvent ev)) (status (propsOrEvent ev)) = JStr ''blocked''"
    show "flagSet (fst (handleEvent rt now task ev))
            \<and> length (filter isRecovery (snd (handleEvent rt now task ev)))
                = (if flagSet task then 0 else 1)"
      unfolding handleEvent_status [OF t] using e
      by (auto simp add: handleSessionStatus_def Let_def flagSet_def isRecovery_def)
  qed
  from a b c show ?thesis by blast
qed

theorem status_poll_only_logs_witness:
  "errorStatuses = Inr (\<lambda>s. if s = ''ses_1'' then Some StateError else None)
   \<and> sessionId exampleTask = ''ses_1''
   \<and> Log Warn ''Session status check detected error/blocked state''
        \<in> set (snd (checkSessionStatus 20000 errorStatuses exampleTask))
   \<and> etype sessionErrorEvent = ''session.error''
   \<and> jor (state (propsOrEvent sessionErrorEvent)) (status (propsOrEvent sessionErrorEvent))
        = JStr ''error''
   \<and> \<not> flagSet exampleTask
   \<and> flagSet (fst (handleEvent exampleBuiltins 20000 exampleTask sessionErrorEvent))
   \<and> length (filter isRecovery
        (snd (handleEvent exampleBuiltins 20000 exampleTask sessionErrorEvent))) = 1"
proof -
  have h1: "errorStatuses = Inr (\<lambda>s. if s = ''ses_1'' then Some StateError else None)"
    by (simp add: errorStatuses_def)
  have h2: "sessionId exampleTask = ''ses_1''" by (simp add: exampleTask_def)
  have h3: "etype sessionErrorEvent = ''session.error''" by (simp add: sessionErrorEvent_def)
  have h4: "jor (state (propsOrEvent sessionErrorEvent)) (status (propsOrEvent sessionErrorEvent))
        = JStr ''error''"
    by (simp add: example_defs propsOrEvent_def jor_def)
  have h5: "\<not> flagSet exampleTask" by (simp add: exampleTask_def flagSet_def)
  note th = status_poll_only_logs [of 20000 errorStatuses exampleTask sessionErrorEvent
      exampleBuiltins]
  from th have "\<forall>m s. errorStatuses = Inr m \<and> m (sessionId exampleTask) = Some s
              \<and> (s = StateError \<or> s = StateBlocked)
        \<longrightarrow> Log Warn ''Session status check detected error/blocked state''
              \<in> set (snd (checkSessionStatus 20000 errorStatuses exampleTask))"
    by blast
  from this [rule_format, of "\<lambda>s. if s = ''ses_1'' then Some StateError else None" StateError]
    h1 h2
  have w: "Log Warn ''Session status check detected error/blocked state''
              \<in> set (snd (checkSessionStatus 20000 errorStatuses exampleTask))"
    by simp
  from th h3 h4 h5
  have p: "flagSet (fst (handleEvent exampleBuiltins 20000 exampleTask sessionErrorEvent))
   \<and> length (filter isRecovery
        (snd (handleEvent exampleBuiltins 20000 exampleTask sessionErrorEvent))) = 1"
    by simp
  from h1 h2 h3 h4 h5 w p show ?thesis by blast
qed

section \<open>Properties of the coordinator and the scheduler\<close>




text \<open>
  C4. The claim holds of the discovery scan and fails on the code for the continuation.
  After a restart, with room for one task, the discovery scan of a poll admits the ready
  issue 1 and the scan of the blocked issues of the same poll continues issue 2, which
  has a new reply of a human: \<open>continueBlockedTask\<close> puts the task into the map
  without looking at the maximum, and two tasks are in memory, both in a phase that is
  neither completed nor failed, with a maximum of one.
\<close>

theorem continuation_exceeds_cap:
  "maxConcurrentTasks exampleConfig = 1
   \<and> activeTasks restartState = []
   \<and> scanState (checkNewTasks exampleConfig exampleWorld 1000 restartState)
       = Some afterDiscovery
   \<and> liveCount afterDiscovery = 1
   \<and> \<not> canStartNewTask exampleConfig afterDiscovery
   \<and> scanState (checkBlockedTasks exampleConfig exampleWorld 1000 afterDiscovery)
       = Some afterResume
   \<and> map fst (activeTasks afterResume) = [1, 2]
   \<and> liveCount afterResume = 2
   \<and> maxConcurrentTasks exampleConfig < liveCount afterResume"
  by code_simp

lemma startTask_existing:
  "map_of (activeTasks st) (number issue) = Some ctx
   \<Longrightarrow> startTask cfg w now st issue = (Inr ctx, st, [])"
  by (simp add: startTask_def)

lemma startTask_registers:
  "startTask cfg w now st issue = (Inr ctx, st1, eff)
   \<Longrightarrow> map_of (activeTasks st1) (number issue) = Some ctx"
  by (auto simp add: startTask_def Let_def update_conv'
      split: option.splits prod.splits sum.splits)

lemma createWorktree_reuse:
  "getWorktreePath cfg n \<in> dirs
   \<Longrightarrow> fst (createWorktree cfg w dirs n branch) = Inr (getWorktreePath cfg n)
       \<and> snd (snd (createWorktree cfg w dirs n branch)) = []"
  by (simp add: createWorktree_def Let_def)

text \<open>
  C5. When \<open>startTask\<close> has returned a task for an issue, any later \<open>startTask\<close> for
  the same issue number on the resulting state returns that same task, leaves the state
  as it is and has no effect: no session is created and no git subcommand is run. And
  when the directory of the workspace of an issue exists, \<open>createWorktree\<close> returns its
  path and runs no git subcommand.
\<close>

theorem startTask_idempotent:
  "(\<forall>ctx st1 eff issue' now'.
       startTask cfg w now st issue = (Inr ctx, st1, eff) \<and> number issue' = number issue
       \<longrightarrow> startTask cfg w now' st1 issue' = (Inr ctx, st1, []))
   \<and> (getWorktreePath cfg n \<in> dirs
       \<longrightarrow> fst (createWorktree cfg w dirs n branch) = Inr (getWorktreePath cfg n)
           \<and> snd (snd (createWorktree cfg w dirs n branch)) = [])"
proof -
  have a: "\<forall>ctx st1 eff issue' now'.
       startTask cfg w now st issue = (Inr ctx, st1, eff) \<and> number issue' = number issue
       \<longrightarrow> startTask cfg w now' st1 issue' = (Inr ctx, st1, [])"
  proof (intro allI impI, elim conjE)
    fix ctx st1 eff and issue' :: Issue and now'
    assume s: "startTask cfg w now st issue = (Inr ctx, st1, eff)"
      and n: "number issue' = number issue"
    from startTask_registers [OF s] n
    have "map_of (activeTasks st1) (number issue') = Some ctx" by simp
    then show "startTask cfg w now' st1 issue' = (Inr ctx, st1, [])"
      by (rule startTask_existing)
  qed
  from a createWorktree_reuse [of cfg n dirs w branch] show ?thesis by blast
qed


theorem startTask_idempotent_witness:
  "firstStart = (Inr (projr (fst firstStart)), afterDiscovery, snd (snd firstStart))
   \<and> number issue1 = number issue1
   \<and> startTask exampleConfig exampleWorld 2000 afterDiscovery issue1
       = (Inr (projr (fst firstStart)), afterDiscovery, [])
   \<and> getWorktreePath exampleConfig 2 \<in> fsDirs restartState
   \<and> fst (createWorktree exampleConfig exampleWorld (fsDirs restartState) 2 ''ai/issue-2-login'')
       = Inr ''/repo/.worktrees/issue-2''
   \<and> snd (snd (createWorktree exampleConfig exampleWorld (fsDirs restartState) 2
        ''ai/issue-2-login'')) = []"
proof -
  have h1: "startTask exampleConfig exampleWorld 1000 restartState issue1
              = (Inr (projr (fst firstStart)), afterDiscovery, snd (snd firstStart))"
    by code_simp
  have h2: "getWorktreePath exampleConfig 2 \<in> fsDirs restartState" by code_simp
  have h3: "getWorktreePath exampleConfig 2 = ''/repo/.worktrees/issue-2''" by code_simp
  note th = startTask_idempotent [of exampleConfig exampleWorld 1000
      restartState issue1 2 "fsDirs restartState" "''ai/issue-2-login''"]
  from th h1 have a: "startTask exampleConfig exampleWorld 2000 afterDiscovery issue1
       = (Inr (projr (fst firstStart)), afterDiscovery, [])"
    by blast
  from th h2 h3 have b: "fst (createWorktree exampleConfig exampleWorld (fsDirs restartState) 2
        ''ai/issue-2-login'') = Inr ''/repo/.worktrees/issue-2''
     \<and> snd (snd (createWorktree exampleConfig exampleWorld (fsDirs restartState) 2
        ''ai/issue-2-login'')) = []"
    by simp
  from h1 h2 a b show ?thesis by (simp add: firstStart_def)
qed

lemma getLatestHumanComment_None:
  "list_all (\<lambda>c. comment_author c = username cfg) (comments issue)
   \<Longrightarrow> getLatestHumanComment cfg issue = None"
  by (simp add: getLatestHumanComment_def Let_def list_all_iff filter_empty_conv)

lemma getCurrentBranch_git_only:
  "filter isSessionEffect (map Git g) = []"
  by (induction g) (simp_all add: isSessionEffect_def)

text \<open>
  C10. When every comment of the issue is by the configured user name of the
  orchestrator, or when \<open>getCurrentBranch\<close> gives no branch for the workspace of the
  issue (\<open>null\<close>, or the empty string), \<open>continueBlockedTask\<close> returns \<open>null\<close> and
  leaves the state as it is, the map of active tasks and the map of the supervisor
  included; it calls nothing on the agent runtime.
\<close>

theorem continueBlockedTask_returns_null:
  assumes "list_all (\<lambda>c. comment_author c = username cfg) (comments issue)
           \<or> \<not> truthy_str (fst (getCurrentBranch cfg w (fsDirs st) (number issue)))"
  shows "fst (continueBlockedTask cfg w now st issue) = Inr None
         \<and> fst (snd (continueBlockedTask cfg w now st issue)) = st
         \<and> filter isSessionEffect (snd (snd (continueBlockedTask cfg w now st issue))) = []"
proof (cases "getLatestHumanComment cfg issue")
  case None
  then show ?thesis by (simp add: continueBlockedTask_def isSessionEffect_def)
next
  case (Some latest)
  with assms getLatestHumanComment_None [of cfg issue]
  have "\<not> truthy_str (fst (getCurrentBranch cfg w (fsDirs st) (number issue)))"
    by auto
  with Some show ?thesis
    by (simp add: continueBlockedTask_def Let_def case_prod_beta getCurrentBranch_git_only)
qed

theorem continueBlockedTask_returns_null_witness:
  "list_all (\<lambda>c. comment_author c = username exampleConfig) (comments botOnlyIssue)
   \<and> continueBlockedTask exampleConfig exampleWorld 1000 afterDiscovery botOnlyIssue
       = (Inr None, afterDiscovery, [])
   \<and> \<not> truthy_str (fst (getCurrentBranch exampleConfig exampleWorld (fsDirs noWorkspaceState)
         (number issue2)))
   \<and> fst (continueBlockedTask exampleConfig exampleWorld 1000 noWorkspaceState issue2)
       = Inr None
   \<and> fst (snd (continueBlockedTask exampleConfig exampleWorld 1000
         noWorkspaceState issue2)) = noWorkspaceState"
proof -
  have h1: "list_all (\<lambda>c. comment_author c = username exampleConfig) (comments botOnlyIssue)"
    by code_simp
  have h2: "\<not> truthy_str (fst (getCurrentBranch exampleConfig exampleWorld
      (fsDirs noWorkspaceState) (number issue2)))"
    by code_simp
  have e: "snd (snd (continueBlockedTask exampleConfig exampleWorld 1000
      afterDiscovery botOnlyIssue)) = []"
    by code_simp
  from continueBlockedTask_returns_null [of exampleConfig botOnlyIssue exampleWorld
      afterDiscovery 1000] h1 e
  have a: "continueBlockedTask exampleConfig exampleWorld 1000 afterDiscovery
      botOnlyIssue = (Inr None, afterDiscovery, [])"
    by (metis prod.collapse)
  from continueBlockedTask_returns_null [of exampleConfig issue2 exampleWorld
      noWorkspaceState 1000] h2
  have b: "fst (continueBlockedTask exampleConfig exampleWorld 1000
        noWorkspaceState issue2) = Inr None
   \<and> fst (snd (continueBlockedTask exampleConfig exampleWorld 1000
         noWorkspaceState issue2)) = noWorkspaceState"
    by blast
  from h1 h2 a b show ?thesis by blast
qed




















end
